theory Spec2Isabelle
  imports Main "HOL-Library.Char_ord" "HOL-Library.List_Lexorder"
begin

section \<open>Strings and numbers of the host language\<close>

text \<open>
  A string of the program is modelled by the byte sequence of its UTF-8 form
  (\<^typ>\<open>string\<close>).  Every key of the query string is an ASCII literal of
  \<^verbatim>\<open>signature.ts\<close>, so the order of \<^verbatim>\<open>Array.prototype.sort\<close> (by UTF-16 code
  unit) and the lexicographic order on bytes agree on them.  A string holding an unpaired
  surrogate, for which \<^verbatim>\<open>encodeURIComponent\<close> raises \<^verbatim>\<open>URIError\<close>, has no UTF-8
  form and is outside this model.
\<close>

definition digit_char :: "nat \<Rightarrow> char" where
  "digit_char d = ''0123456789'' ! d"

function nat_to_string :: "nat \<Rightarrow> string" where
  "nat_to_string n =
     (if n < 10 then [digit_char n] else nat_to_string (n div 10) @ [digit_char (n mod 10)])"
  by pat_completeness auto
termination
  by (relation "measure id") auto

declare nat_to_string.simps [simp del]

text \<open>The decimal numeral of an integer.\<close>

definition decimal :: "int \<Rightarrow> string" where
  "decimal i =
     (if i < 0 then CHR ''-'' # nat_to_string (nat (- i)) else nat_to_string (nat i))"

text \<open>
  A number of the program is a double.  The SDK does three things with a number: it tests
  it for truth, it compares it with an integer literal, and it prints it with
  \<^verbatim>\<open>String\<close>.  A number is represented accordingly:
  \<^item> \<open>Integral i\<close> is the integral number \<open>i\<close> of magnitude at most \<open>2\<^sup>5\<^sup>3\<close>.  Every
    integer of that range is a double, and \<^verbatim>\<open>String\<close> prints it as its decimal numeral;
    both zeros are \<open>Integral 0\<close>, which \<^verbatim>\<open>String\<close> prints as \<^verbatim>\<open>0\<close>;
  \<^item> \<open>NaN\<close> is the number of that name;
  \<^item> \<open>Other_number t\<close> is any other number (not integral, of larger magnitude, infinite),
    given by the text \<open>t\<close> that \<^verbatim>\<open>String\<close> prints for it, such as \<^verbatim>\<open>0.5\<close>,
    \<^verbatim>\<open>1152921504606847000\<close> for \<open>2\<^sup>6\<^sup>0\<close>, \<^verbatim>\<open>1e+21\<close> for \<open>10\<^sup>2\<^sup>1\<close>, or \<^verbatim>\<open>Infinity\<close>.
  An integer of magnitude above \<open>2\<^sup>5\<^sup>3\<close> is never represented by \<open>Integral\<close>: the predicate
  \<open>is_number\<close> tells the representations that stand for a number.  Strict equality of two
  numbers other than \<open>NaN\<close> is equality of their representations.
\<close>

datatype number = Integral int | NaN | Other_number string

text \<open>The truth of a number: every number but zero and \<^verbatim>\<open>NaN\<close> is truthy.\<close>

fun truthy :: "number \<Rightarrow> bool" where
  "truthy (Integral i) = (i \<noteq> 0)"
| "truthy NaN = False"
| "truthy (Other_number t) = True"

text \<open>\<^verbatim>\<open>String(n)\<close>, also the text that a template literal gives for \<^verbatim>\<open>${n}\<close>.\<close>

fun String_number :: "number \<Rightarrow> string" where
  "String_number (Integral i) = decimal i"
| "String_number NaN = ''NaN''"
| "String_number (Other_number t) = t"

text \<open>
  The representations that stand for a number.  The text of \<open>Other_number\<close> is not empty
  and is not one of the texts that \<^verbatim>\<open>String\<close> prints for zero and for \<^verbatim>\<open>NaN\<close>.
\<close>

fun is_number :: "number \<Rightarrow> bool" where
  "is_number (Integral i) = (\<bar>i\<bar> \<le> 2 ^ 53)"
| "is_number NaN = True"
| "is_number (Other_number t) = (t \<noteq> [] \<and> t \<noteq> ''0'' \<and> t \<noteq> ''NaN'')"

text \<open>
  \<^verbatim>\<open>encodeURIComponent\<close>: every byte outside the unreserved set
  \<^verbatim>\<open>A-Z a-z 0-9 - _ . ! ~ * ' ( )\<close> becomes \<^verbatim>\<open>%XX\<close> in upper-case hexadecimal.
\<close>

definition unreserved :: "char \<Rightarrow> bool" where
  "unreserved c \<longleftrightarrow>
     c \<in> set ''ABCDEFGHIJKLMNOPQRSTUVWXYZabcdefghijklmnopqrstuvwxyz0123456789-_.!~*()''
     \<or> c = CHR 0x27"

definition hex_digit :: "nat \<Rightarrow> char" where
  "hex_digit d = ''0123456789ABCDEF'' ! d"

definition percent :: "char \<Rightarrow> string" where
  "percent c = [CHR ''%'', hex_digit (of_char c div 16), hex_digit (of_char c mod 16)]"

definition encodeURIComponent :: "string \<Rightarrow> string" where
  "encodeURIComponent s = concat (map (\<lambda>c. if unreserved c then [c] else percent c) s)"

text \<open>\<^verbatim>\<open>Array.prototype.join\<close> and \<^verbatim>\<open>String.prototype.split\<close> at one character.\<close>

fun join :: "string \<Rightarrow> string list \<Rightarrow> string" where
  "join sep [] = []"
| "join sep [x] = x"
| "join sep (x # y # ys) = x @ sep @ join sep (y # ys)"

fun split :: "char \<Rightarrow> string \<Rightarrow> string list" where
  "split c [] = [[]]"
| "split c (x # xs) =
     (if x = c then [] # split c xs
      else (case split c xs of [] \<Rightarrow> [[x]] | y # ys \<Rightarrow> (x # y) # ys))"


section \<open>signature.ts: the query parameters of the WebSocket request\<close>

record SignatureParamsOptions =
  opt_appId :: number
  opt_engineModelType :: string
  opt_voiceId :: string
  opt_voiceFormat :: "number option"
  opt_needVad :: "number option"
  opt_convertNumMode :: "number option"
  opt_hotwordId :: "string option"
  opt_customizationId :: "string option"
  opt_filterDirty :: "number option"
  opt_filterModal :: "number option"
  opt_filterPunc :: "number option"
  opt_wordInfo :: "number option"
  opt_vadSilenceTime :: "number option"
  opt_maxSpeakTime :: "number option"

record SignatureParams =
  appId :: number
  engineModelType :: string
  voiceId :: string
  timestamp :: number
  expired :: number
  nonce :: number
  voiceFormat :: number
  needVad :: number
  convertNumMode :: number
  hotwordId :: string
  customizationId :: string
  filterDirty :: number
  filterModal :: number
  filterPunc :: number
  wordInfo :: number
  vadSilenceTime :: number
  maxSpeakTime :: number

text \<open>The nullish coalescing operator \<^verbatim>\<open>??\<close>.\<close>

definition nullish :: "'a option \<Rightarrow> 'a \<Rightarrow> 'a" where
  "nullish v d = (case v of None \<Rightarrow> d | Some x \<Rightarrow> x)"

text \<open>
  The constructor.  \<open>now\<close> is \<^verbatim>\<open>Math.floor(Date.now() / 1000)\<close> and \<open>rnd\<close> is
  \<^verbatim>\<open>Math.floor(Math.random() * 9999999)\<close>, both read from the environment: integers far
  below \<open>2\<^sup>5\<^sup>3\<close> in magnitude (a date is at most \<open>8.64 \<times> 10\<^sup>1\<^sup>2\<close> seconds from the epoch,
  the random number is below \<open>10\<^sup>7\<close>), and so are the sums taken from them.
\<close>

definition new_SignatureParams :: "int \<Rightarrow> int \<Rightarrow> SignatureParamsOptions \<Rightarrow> SignatureParams" where
  "new_SignatureParams now rnd opts =
     \<lparr> appId = opt_appId opts,
       engineModelType = opt_engineModelType opts,
       voiceId = opt_voiceId opts,
       timestamp = Integral now,
       expired = Integral (now + 86400),
       nonce = Integral (rnd + 1),
       voiceFormat = nullish (opt_voiceFormat opts) (Integral 1),
       needVad = nullish (opt_needVad opts) (Integral 1),
       convertNumMode = nullish (opt_convertNumMode opts) (Integral 1),
       hotwordId = nullish (opt_hotwordId opts) [],
       customizationId = nullish (opt_customizationId opts) [],
       filterDirty = nullish (opt_filterDirty opts) (Integral 0),
       filterModal = nullish (opt_filterModal opts) (Integral 0),
       filterPunc = nullish (opt_filterPunc opts) (Integral 0),
       wordInfo = nullish (opt_wordInfo opts) (Integral 0),
       vadSilenceTime = nullish (opt_vadSilenceTime opts) (Integral 0),
       maxSpeakTime = nullish (opt_maxSpeakTime opts) (Integral 0) \<rparr>"

text \<open>
  A \<^verbatim>\<open>Record<string, string>\<close> is an association list in insertion order, which is
  the order of \<^verbatim>\<open>Object.keys\<close> for keys that are not array indices.
  \<open>assign m k v\<close> is \<^verbatim>\<open>m[k] = v\<close>; \<open>assign_if\<close> is the guarded assignment
  \<^verbatim>\<open>if (c) m[k] = v\<close> of \<^verbatim>\<open>toMap\<close>.
\<close>

type_synonym Record = "(string \<times> string) list"

fun assign :: "Record \<Rightarrow> string \<Rightarrow> string \<Rightarrow> Record" where
  "assign [] k v = [(k, v)]"
| "assign (p # ps) k v = (if fst p = k then (k, v) # ps else p # assign ps k v)"

definition assign_if :: "bool \<Rightarrow> string \<Rightarrow> string \<Rightarrow> Record \<Rightarrow> Record" where
  "assign_if c k v m = (if c then assign m k v else m)"

definition Object_keys :: "Record \<Rightarrow> string list" where
  "Object_keys m = map fst m"

text \<open>\<^verbatim>\<open>params[k]\<close>; a missing property reads \<^verbatim>\<open>undefined\<close>, which the encoder
  turns into the text \<^verbatim>\<open>undefined\<close>.\<close>

definition get_prop :: "Record \<Rightarrow> string \<Rightarrow> string" where
  "get_prop m k = (case map_of m k of None \<Rightarrow> ''undefined'' | Some v \<Rightarrow> v)"

definition toMap :: "SignatureParams \<Rightarrow> Record" where
  "toMap p =
     (assign_if (truthy (maxSpeakTime p)) ''max_speak_time'' (String_number (maxSpeakTime p))
     (assign_if (truthy (vadSilenceTime p)) ''vad_silence_time'' (String_number (vadSilenceTime p))
     (assign_if (truthy (wordInfo p)) ''word_info'' (String_number (wordInfo p))
     (assign_if (truthy (convertNumMode p)) ''convert_num_mode'' (String_number (convertNumMode p))
     (assign_if (truthy (filterPunc p)) ''filter_punc'' (String_number (filterPunc p))
     (assign_if (truthy (filterModal p)) ''filter_modal'' (String_number (filterModal p))
     (assign_if (truthy (filterDirty p)) ''filter_dirty'' (String_number (filterDirty p))
     (assign_if (customizationId p \<noteq> []) ''customization_id'' (customizationId p)
     (assign_if (hotwordId p \<noteq> []) ''hotword_id'' (hotwordId p)
       [(''secretid'', String_number (appId p)),
        (''timestamp'', String_number (timestamp p)),
        (''expired'', String_number (expired p)),
        (''nonce'', String_number (nonce p)),
        (''engine_model_type'', engineModelType p),
        (''voice_id'', voiceId p),
        (''voice_format'', String_number (voiceFormat p)),
        (''needvad'', String_number (needVad p))])))))))))"

definition encodeParams :: "Record \<Rightarrow> string" where
  "encodeParams params =
     join ''&'' (map (\<lambda>k. k @ ''='' @ encodeURIComponent (get_prop params k))
                     (sort (Object_keys params)))"

definition buildQueryString :: "SignatureParams \<Rightarrow> string" where
  "buildQueryString p = encodeParams (toMap p)"

definition buildQueryStringWithSignature :: "SignatureParams \<Rightarrow> string \<Rightarrow> string" where
  "buildQueryStringWithSignature p userSig = encodeParams (assign (toMap p) ''signature'' userSig)"

text \<open>
  Reading a query string back, the way \<^verbatim>\<open>tests/signature.test.ts\<close> does
  (\<^verbatim>\<open>qs.split("&").map((p) => p.split("=")[0])\<close>): the parts between ampersands, each
  cut at its first equals sign.
\<close>

definition query_pairs :: "string \<Rightarrow> (string \<times> string) list" where
  "query_pairs qs =
     map (\<lambda>part. (takeWhile (\<lambda>c. c \<noteq> CHR ''='') part, drop 1 (dropWhile (\<lambda>c. c \<noteq> CHR ''='') part)))
         (split CHR ''&'' qs)"

definition query_keys :: "string \<Rightarrow> string list" where
  "query_keys qs = map fst (query_pairs qs)"


text \<open>A key that holds neither separator of the query string.\<close>

definition plain :: "string \<Rightarrow> bool" where
  "plain k \<longleftrightarrow> CHR ''&'' \<notin> set k \<and> CHR ''='' \<notin> set k"


text \<open>Every key that \<^verbatim>\<open>toMap\<close> or \<^verbatim>\<open>buildQueryStringWithSignature\<close> can write, in
  lexicographic order.\<close>

definition all_keys :: "string list" where
  "all_keys = [''convert_num_mode'', ''customization_id'', ''engine_model_type'', ''expired'',
     ''filter_dirty'', ''filter_modal'', ''filter_punc'', ''hotword_id'', ''max_speak_time'',
     ''needvad'', ''nonce'', ''secretid'', ''signature'', ''timestamp'', ''vad_silence_time'',
     ''voice_format'', ''voice_id'', ''word_info'']"

text \<open>The parameters of \<^verbatim>\<open>tests/signature.test.ts\<close>, with no optional field given, built at
  a fixed clock and random draw.\<close>

definition example_opts :: SignatureParamsOptions where
  "example_opts =
     \<lparr> opt_appId = Integral 1300403317, opt_engineModelType = ''16k_zh'', opt_voiceId = ''test-voice-001'',
       opt_voiceFormat = None, opt_needVad = None, opt_convertNumMode = None,
       opt_hotwordId = None, opt_customizationId = None, opt_filterDirty = None,
       opt_filterModal = None, opt_filterPunc = None, opt_wordInfo = None,
       opt_vadSilenceTime = None, opt_maxSpeakTime = None \<rparr>"

definition example_params :: SignatureParams where
  "example_params = new_SignatureParams 1700000000 41 example_opts"



section \<open>errors.ts, credential.ts, usersig.ts\<close>

definition INVALID_PARAM :: number where "INVALID_PARAM = Integral 1001"
definition CONNECT_FAILED :: number where "CONNECT_FAILED = Integral 1002"
definition WRITE_FAILED :: number where "WRITE_FAILED = Integral 1003"
definition READ_FAILED :: number where "READ_FAILED = Integral 1004"
definition AUTH_FAILED :: number where "AUTH_FAILED = Integral 1005"
definition TIMEOUT :: number where "TIMEOUT = Integral 1006"
definition SERVER_ERROR :: number where "SERVER_ERROR = Integral 1007"
definition ALREADY_STARTED :: number where "ALREADY_STARTED = Integral 1008"
definition NOT_STARTED :: number where "NOT_STARTED = Integral 1009"
definition ALREADY_STOPPED :: number where "ALREADY_STOPPED = Integral 1010"

text \<open>
  An \<^verbatim>\<open>ASRError\<close> object with its properties \<^verbatim>\<open>code\<close> and \<^verbatim>\<open>message\<close>, and the
  constructor \<^verbatim>\<open>new ASRError(code, message)\<close>, which hands the text
  \<^verbatim>\<open>trtc-asr error [${code}]: ${message}\<close> to \<^verbatim>\<open>Error\<close> as the message of the object.
\<close>

datatype ASRError = ASRError (err_code: number) (err_message: string)

definition new_ASRError :: "number \<Rightarrow> string \<Rightarrow> ASRError" where
  "new_ASRError c m = ASRError c (''trtc-asr error ['' @ String_number c @ '']: '' @ m)"

record Credential =
  cred_appId :: number
  sdkAppId :: number
  secretKey :: string
  userSig :: string

definition new_Credential :: "number \<Rightarrow> number \<Rightarrow> string \<Rightarrow> Credential" where
  "new_Credential a sdk key = \<lparr> cred_appId = a, sdkAppId = sdk, secretKey = key, userSig = [] \<rparr>"


text \<open>
  The signing library \<^verbatim>\<open>tls-sig-api-v2\<close> is not part of the repository: the call
  \<^verbatim>\<open>new TLSSigAPIv2.Api(sdkAppId, key).genSig(userId, expire)\<close> is a parameter of the model,
  a function that returns the token (\<open>Inr\<close>) or the text of the exception it throws (\<open>Inl\<close>).
\<close>

type_synonym TLSSigAPI = "number \<Rightarrow> string \<Rightarrow> string \<Rightarrow> int \<Rightarrow> string + string"

definition DEFAULT_EXPIRE :: int where "DEFAULT_EXPIRE = 86400 * 180"

definition genUserSig :: "TLSSigAPI \<Rightarrow> number \<Rightarrow> string \<Rightarrow> string \<Rightarrow> int \<Rightarrow> string + string" where
  "genUserSig api sdk key userId expire =
     api sdk key userId (if expire \<le> 0 then DEFAULT_EXPIRE else expire)"


section \<open>speech-recognizer.ts: the session\<close>

definition ENDPOINT :: string where "ENDPOINT = ''wss://asr.cloud-rtc.com''"

datatype State = IDLE | STARTING | RUNNING | STOPPING | STOPPED

fun State_value :: "State \<Rightarrow> nat" where
  "State_value IDLE = 0"
| "State_value STARTING = 1"
| "State_value RUNNING = 2"
| "State_value STOPPING = 3"
| "State_value STOPPED = 4"

record WordInfo =
  word :: string
  word_start_time :: int
  word_end_time :: int
  stable_flag :: int

text \<open>\<open>slice_type\<close> is \<open>None\<close> when the property is absent from the parsed event.\<close>

record RecognitionResult =
  slice_type :: "int option"
  index :: int
  start_time :: int
  end_time :: int
  voice_text_str :: string
  word_size :: int
  word_list :: "WordInfo list"

text \<open>\<open>result\<close> is \<open>None\<close> when the event has no \<^verbatim>\<open>result\<close> object (the source reads
  it with \<^verbatim>\<open>resp.result?.slice_type\<close>).\<close>

record SpeechRecognitionResponse =
  code :: number
  message :: string
  voice_id :: string
  message_id :: string
  final :: int
  result :: "RecognitionResult option"

text \<open>
  What arrives with a \<^verbatim>\<open>message\<close> event.  The text of a frame is represented by what
  \<^verbatim>\<open>JSON.parse\<close> makes of it: the exception text, or an event object of the declared
  shape (a text that parses to something else, such as \<^verbatim>\<open>null\<close>, is outside the model).
\<close>

datatype payload = Malformed string | Event SpeechRecognitionResponse

datatype ws_data = String_data payload | Buffer_data payload | Other_data

type_synonym Buffer = "char list"

datatype frame = Binary_frame Buffer | Text_frame string

text \<open>The state of a promise right after the call that returns it.\<close>

datatype outcome = Pending | Resolved | Rejected ASRError

text \<open>
  Everything the session does to the outside is appended to a trace: the listener's
  callbacks, the calls on a socket, the calls of the resolvers held by the session, and the
  calls of the signing function.  A call of \<^verbatim>\<open>start\<close> gets a fresh number; the promise it
  returns, the completion promise and the socket it creates carry that number.  The callbacks
  of the listener are taken to return normally.
\<close>

datatype effect =
    onRecognitionStart SpeechRecognitionResponse
  | onSentenceBegin SpeechRecognitionResponse
  | onRecognitionResultChange SpeechRecognitionResponse
  | onSentenceEnd SpeechRecognitionResponse
  | onRecognitionComplete SpeechRecognitionResponse
  | onFail "SpeechRecognitionResponse option" ASRError
  | new_WebSocket nat string "(string \<times> string) list"
  | ws_send nat frame
  | ws_close nat
  | doneResolve_call nat
  | start_resolve nat
  | start_reject nat ASRError
  | genUserSig_call number string string int "string + string"

record SpeechRecognizer =
  this_credential :: Credential
  this_ws :: "nat option"
  this_endpoint :: string
  this_engineModelType :: string
  this_voiceFormat :: number
  this_needVad :: number
  this_convertNumMode :: number
  this_hotwordId :: string
  this_customizationId :: string
  this_filterDirty :: number
  this_filterModal :: number
  this_filterPunc :: number
  this_wordInfo :: number
  this_vadSilenceTime :: number
  this_maxSpeakTime :: number
  this_voiceId :: string
  this_writeTimeout :: int
  this_state :: State
  this_doneResolve :: "nat option"
  this_donePromise :: "nat option"

text \<open>
  The session together with its surroundings: the trace, the number of \<^verbatim>\<open>start\<close> calls
  made so far, the sockets created so far, and the calls of \<^verbatim>\<open>stop\<close> that are suspended
  at their first \<^verbatim>\<open>await\<close> (the send of the end signal) or at their second (the race
  of the completion promise with the ten-second timer).
\<close>

record session = SpeechRecognizer +
  trace :: "effect list"
  attempts :: nat
  sockets :: "nat list"
  stop_sending :: nat
  stop_waiting :: nat

definition new_SpeechRecognizer :: "Credential \<Rightarrow> string \<Rightarrow> session" where
  "new_SpeechRecognizer credential engine =
     \<lparr> this_credential = credential, this_ws = None, this_endpoint = ENDPOINT,
       this_engineModelType = engine, this_voiceFormat = Integral 1, this_needVad = Integral 1,
       this_convertNumMode = Integral 1, this_hotwordId = [], this_customizationId = [],
       this_filterDirty = Integral 0, this_filterModal = Integral 0,
       this_filterPunc = Integral 0, this_wordInfo = Integral 0,
       this_vadSilenceTime = Integral 0, this_maxSpeakTime = Integral 0, this_voiceId = [],
       this_writeTimeout = 5000, this_state = IDLE, this_doneResolve = None,
       this_donePromise = None,
       trace = [], attempts = 0, sockets = [], stop_sending = 0, stop_waiting = 0 \<rparr>"

definition emit :: "effect \<Rightarrow> session \<Rightarrow> session" where
  "emit e s = s\<lparr> trace := trace s @ [e] \<rparr>"

text \<open>\<^verbatim>\<open>close()\<close>: an exception of \<^verbatim>\<open>ws.close()\<close> is swallowed, the handle is dropped.\<close>

definition close :: "session \<Rightarrow> session" where
  "close s = (case this_ws s of
                None \<Rightarrow> s
              | Some k \<Rightarrow> (emit (ws_close k) s)\<lparr> this_ws := None \<rparr>)"

text \<open>
  The statement \<^verbatim>\<open>if (this.doneResolve) { this.doneResolve(); this.doneResolve = null; }\<close>,
  which the source repeats at its three release sites.
\<close>

definition release :: "session \<Rightarrow> session" where
  "release s = (case this_doneResolve s of
                  None \<Rightarrow> s
                | Some d \<Rightarrow> (emit (doneResolve_call d) s)\<lparr> this_doneResolve := None \<rparr>)"

definition dispatchEvent :: "SpeechRecognitionResponse \<Rightarrow> session \<Rightarrow> session" where
  "dispatchEvent resp s =
     (let slice = (case result resp of None \<Rightarrow> None | Some r \<Rightarrow> slice_type r) in
      if slice = Some 0 then emit (onSentenceBegin resp) s
      else if slice = Some 1 then emit (onRecognitionResultChange resp) s
      else if slice = Some 2 then emit (onSentenceEnd resp) s
      else if final resp = 1 then s
      else emit (onRecognitionStart resp) s)"

definition handlePayload :: "payload \<Rightarrow> session \<Rightarrow> session" where
  "handlePayload p s =
     (case p of
        Malformed err \<Rightarrow>
          emit (onFail None (new_ASRError READ_FAILED (''unmarshal response failed: '' @ err))) s
      | Event resp \<Rightarrow>
          if code resp \<noteq> Integral 0 then
            release (close (emit (onFail (Some resp) (new_ASRError (code resp) (message resp))) s))
          else
            (let s1 = dispatchEvent resp s in
             if final resp = 1 then release (emit (onRecognitionComplete resp) s1) else s1))"

definition handleMessage :: "ws_data \<Rightarrow> session \<Rightarrow> session" where
  "handleMessage data s =
     (case data of
        String_data p \<Rightarrow> handlePayload p s
      | Buffer_data p \<Rightarrow> handlePayload p s
      | Other_data \<Rightarrow> s)"

text \<open>The handlers that \<^verbatim>\<open>connect\<close> registers on the socket of attempt \<open>n\<close>.\<close>

definition on_open :: "nat \<Rightarrow> session \<Rightarrow> session" where
  "on_open n s = emit (start_resolve n) (s\<lparr> this_state := RUNNING \<rparr>)"

definition on_error :: "nat \<Rightarrow> string \<Rightarrow> session \<Rightarrow> session" where
  "on_error n err s =
     (if this_state s = STARTING then
        emit (start_reject n (new_ASRError CONNECT_FAILED (''websocket connect failed: '' @ err)))
             (s\<lparr> this_state := IDLE \<rparr>)
      else s)"

definition on_close :: "session \<Rightarrow> session" where
  "on_close s =
     release
       (if State_value (this_state s) < State_value STOPPING then
          emit (onFail None (new_ASRError READ_FAILED ''websocket connection closed unexpectedly'')) s
        else s)"

text \<open>
  What a call of \<^verbatim>\<open>start\<close> reads from its surroundings: the results of \<^verbatim>\<open>uuidv4()\<close>,
  of \<^verbatim>\<open>Math.floor(Date.now() / 1000)\<close> and of \<^verbatim>\<open>Math.floor(Math.random() * 9999999)\<close>,
  and whether the constructor of the socket throws (with the text of its exception).
\<close>

record start_env =
  uuid :: string
  now :: int
  rnd :: int
  ctor_throws :: "string option"

text \<open>
  \<^verbatim>\<open>connect\<close> for attempt \<open>n\<close>, in the four blocks of the source.  It ends in one of
  three ways: it returns with the handlers registered, it returns after calling
  \<^verbatim>\<open>reject\<close>, or an exception escapes.  Assignments made before the exception stay.
\<close>

datatype completion = Registered | Rejecting ASRError | Throwing string

text \<open>\<^verbatim>\<open>if (!this.voiceId) this.voiceId = uuidv4()\<close>.\<close>

definition assign_voiceId :: "start_env \<Rightarrow> session \<Rightarrow> session" where
  "assign_voiceId env s = (if this_voiceId s = [] then s\<lparr> this_voiceId := uuid env \<rparr> else s)"

text \<open>
  \<^verbatim>\<open>if (!this.credential.userSig) { try { this.credential.userSig = genUserSig(...) } ... }\<close>:
  the result is the text of the exception caught, if any.  The call is recorded in the trace
  with its result.
\<close>

definition derive_userSig :: "TLSSigAPI \<Rightarrow> session \<Rightarrow> string option \<times> session" where
  "derive_userSig api s =
     (let c = this_credential s in
      if userSig c = [] then
        (let r = genUserSig api (sdkAppId c) (secretKey c) (this_voiceId s) 86400;
             s1 = emit (genUserSig_call (sdkAppId c) (secretKey c) (this_voiceId s) 86400 r) s
         in case r of
              Inl err \<Rightarrow> (Some err, s1)
            | Inr t \<Rightarrow> (None, s1\<lparr> this_credential := c\<lparr> userSig := t \<rparr> \<rparr>))
      else (None, s))"

definition request_params :: "start_env \<Rightarrow> session \<Rightarrow> SignatureParams" where
  "request_params env s =
     new_SignatureParams (now env) (rnd env)
       \<lparr> opt_appId = cred_appId (this_credential s),
         opt_engineModelType = this_engineModelType s,
         opt_voiceId = this_voiceId s,
         opt_voiceFormat = Some (this_voiceFormat s),
         opt_needVad = Some (this_needVad s),
         opt_convertNumMode = Some (this_convertNumMode s),
         opt_hotwordId = Some (this_hotwordId s),
         opt_customizationId = Some (this_customizationId s),
         opt_filterDirty = Some (this_filterDirty s),
         opt_filterModal = Some (this_filterModal s),
         opt_filterPunc = Some (this_filterPunc s),
         opt_wordInfo = Some (this_wordInfo s),
         opt_vadSilenceTime = Some (this_vadSilenceTime s),
         opt_maxSpeakTime = Some (this_maxSpeakTime s) \<rparr>"

definition request_url :: "start_env \<Rightarrow> session \<Rightarrow> string" where
  "request_url env s =
     this_endpoint s @ ''/asr/v2/'' @ String_number (cred_appId (this_credential s)) @ ''?''
       @ buildQueryStringWithSignature (request_params env s) (userSig (this_credential s))"

definition request_headers :: "session \<Rightarrow> (string \<times> string) list" where
  "request_headers s =
     [(''X-TRTC-SdkAppId'', String_number (sdkAppId (this_credential s))),
      (''X-TRTC-UserSig'', userSig (this_credential s))]"

text \<open>
  The completion promise is created before the socket; if the constructor of the socket
  throws, the promise and its resolver stay in the session.
\<close>

definition open_socket :: "start_env \<Rightarrow> nat \<Rightarrow> session \<Rightarrow> completion \<times> session" where
  "open_socket env n s =
     (let s1 = s\<lparr> this_donePromise := Some n, this_doneResolve := Some n \<rparr> in
      case ctor_throws env of
        Some err \<Rightarrow> (Throwing err, s1)
      | None \<Rightarrow>
          (Registered,
           (emit (new_WebSocket n (request_url env s) (request_headers s)) s1)
             \<lparr> this_ws := Some n, sockets := sockets s1 @ [n] \<rparr>))"

definition connect :: "TLSSigAPI \<Rightarrow> start_env \<Rightarrow> nat \<Rightarrow> session \<Rightarrow> completion \<times> session" where
  "connect api env n s =
     (case derive_userSig api (assign_voiceId env s) of
        (Some err, s1) \<Rightarrow>
          (let e = new_ASRError AUTH_FAILED (''generate user sig failed: '' @ err) in
           (Rejecting e, emit (start_reject n e) (s1\<lparr> this_state := IDLE \<rparr>)))
      | (None, s1) \<Rightarrow> open_socket env n s1)"

text \<open>
  \<^verbatim>\<open>start()\<close>.  The outcome is the state of the returned promise when the call returns:
  rejected by the state guard, rejected inside \<^verbatim>\<open>connect\<close>, rejected by the
  \<^verbatim>\<open>catch\<close>, or pending until the socket opens or fails.
\<close>

definition start :: "TLSSigAPI \<Rightarrow> start_env \<Rightarrow> session \<Rightarrow> outcome \<times> session" where
  "start api env s =
     (let n = attempts s; s0 = s\<lparr> attempts := n + 1 \<rparr> in
      if this_state s0 \<noteq> IDLE then
        (Rejected (new_ASRError ALREADY_STARTED ''recognizer already started''), s0)
      else
        (case connect api env n (s0\<lparr> this_state := STARTING \<rparr>) of
           (Throwing err, s1) \<Rightarrow>
             (let e = new_ASRError CONNECT_FAILED (''websocket connect failed: '' @ err) in
              (Rejected e, emit (start_reject n e) (s1\<lparr> this_state := IDLE \<rparr>)))
         | (Rejecting e, s1) \<Rightarrow> (Rejected e, s1)
         | (Registered, s1) \<Rightarrow> (Pending, s1)))"

text \<open>
  \<^verbatim>\<open>write(data)\<close> (\<open>write\<close> is a keyword of the proof language, hence the name
  \<open>write_data\<close>).  Past the guards the frame is handed to the socket and the promise is
  pending; it settles later without touching the session.
\<close>

definition write_data :: "Buffer \<Rightarrow> session \<Rightarrow> outcome \<times> session" where
  "write_data data s =
     (if this_state s \<noteq> RUNNING then
        (Rejected (new_ASRError NOT_STARTED ''recognizer not running''), s)
      else case this_ws s of
             None \<Rightarrow> (Rejected (new_ASRError NOT_STARTED ''connection not established''), s)
           | Some k \<Rightarrow> (Pending, emit (ws_send k (Binary_frame data)) s))"

text \<open>
  \<^verbatim>\<open>stop()\<close> is an \<^verbatim>\<open>async\<close> function with two suspension points, so it runs in three
  pieces.  \<open>stop\<close> is the piece up to the first \<^verbatim>\<open>await\<close>.  \<open>stop_sent\<close> resumes when
  the promise of the end-signal send settles: fulfilled by the callback of \<^verbatim>\<open>ws.send\<close>,
  rejected by that callback, or rejected by the timer of \<^verbatim>\<open>writeTimeout\<close> milliseconds.
  \<open>stop_waited\<close> resumes when the race of the completion promise and the ten-second timer
  settles.
\<close>

datatype send_result = Send_ok | Send_failed string | Send_timeout

definition stop :: "session \<Rightarrow> outcome \<times> session" where
  "stop s =
     (if this_state s \<noteq> RUNNING then
        (Rejected (new_ASRError NOT_STARTED ''recognizer not running''), s)
      else
        (let s1 = s\<lparr> this_state := STOPPING \<rparr> in
         case this_ws s1 of
           None \<Rightarrow>
             (Rejected (new_ASRError NOT_STARTED ''connection not established''),
              s1\<lparr> this_state := STOPPED \<rparr>)
         | Some k \<Rightarrow>
             (Pending,
              (emit (ws_send k (Text_frame ''{\"type\":\"end\"}'')) s1)
                \<lparr> stop_sending := stop_sending s1 + 1 \<rparr>)))"

definition stop_waited :: "session \<Rightarrow> outcome \<times> session" where
  "stop_waited s = (Resolved, (close s)\<lparr> this_state := STOPPED \<rparr>)"

definition stop_sent :: "send_result \<Rightarrow> session \<Rightarrow> outcome \<times> session" where
  "stop_sent r s =
     (case r of
        Send_failed msg \<Rightarrow>
          (Rejected (new_ASRError WRITE_FAILED (''send end signal failed: '' @ msg)),
           (close s)\<lparr> this_state := STOPPED \<rparr>)
      | Send_timeout \<Rightarrow>
          (Rejected (new_ASRError WRITE_FAILED ''send end signal timeout''),
           (close s)\<lparr> this_state := STOPPED \<rparr>)
      | Send_ok \<Rightarrow>
          (case this_donePromise s of
             Some d \<Rightarrow> (Pending, s\<lparr> stop_waiting := stop_waiting s + 1 \<rparr>)
           | None \<Rightarrow> stop_waited s))"


definition setWriteTimeout :: "int \<Rightarrow> session \<Rightarrow> session" where
  "setWriteTimeout ms s = s\<lparr> this_writeTimeout := ms \<rparr>"


subsection \<open>Runs of a session\<close>

text \<open>
  The calls of the caller and the events of the transport, in the order in which the event
  loop runs them.  A transport event names the socket that raises it; the two resumptions of
  \<^verbatim>\<open>stop\<close> are events of their own.
\<close>

datatype event =
    Start start_env
  | Write Buffer
  | Stop
  | Stop_sent send_result
  | Stop_waited
  | Ws_open nat
  | Ws_error nat string
  | Ws_message nat ws_data
  | Ws_close nat

text \<open>
  One event.  \<open>None\<close> means that the event cannot happen in this state: a socket that was
  never created raises nothing, and \<^verbatim>\<open>stop\<close> resumes only where a call of it is
  suspended.
\<close>

definition step :: "TLSSigAPI \<Rightarrow> event \<Rightarrow> session \<Rightarrow> session option" where
  "step api e s =
     (case e of
        Start env \<Rightarrow> Some (snd (start api env s))
      | Write data \<Rightarrow> Some (snd (write_data data s))
      | Stop \<Rightarrow> Some (snd (stop s))
      | Stop_sent r \<Rightarrow>
          if stop_sending s = 0 then None
          else Some (snd (stop_sent r (s\<lparr> stop_sending := stop_sending s - 1 \<rparr>)))
      | Stop_waited \<Rightarrow>
          if stop_waiting s = 0 then None
          else Some (snd (stop_waited (s\<lparr> stop_waiting := stop_waiting s - 1 \<rparr>)))
      | Ws_open n \<Rightarrow> if n \<in> set (sockets s) then Some (on_open n s) else None
      | Ws_error n err \<Rightarrow> if n \<in> set (sockets s) then Some (on_error n err s) else None
      | Ws_message n data \<Rightarrow> if n \<in> set (sockets s) then Some (handleMessage data s) else None
      | Ws_close n \<Rightarrow> if n \<in> set (sockets s) then Some (on_close s) else None)"

fun run :: "TLSSigAPI \<Rightarrow> event list \<Rightarrow> session \<Rightarrow> session option" where
  "run api [] s = Some s"
| "run api (e # es) s = (case step api e s of None \<Rightarrow> None | Some s' \<Rightarrow> run api es s')"

text \<open>What a trace shows: the events handed to \<^verbatim>\<open>onRecognitionComplete\<close>, the completion
  promises released, the frames sent, the results of the calls of the signing function.\<close>

fun completed :: "effect \<Rightarrow> SpeechRecognitionResponse list" where
  "completed (onRecognitionComplete r) = [r]"
| "completed _ = []"

fun released :: "effect \<Rightarrow> nat list" where
  "released (doneResolve_call d) = [d]"
| "released _ = []"

fun sent :: "effect \<Rightarrow> (nat \<times> frame) list" where
  "sent (ws_send k f) = [(k, f)]"
| "sent _ = []"

fun signing :: "effect \<Rightarrow> (string + string) list" where
  "signing (genUserSig_call sdk key userId expire r) = [r]"
| "signing _ = []"

definition completions :: "effect list \<Rightarrow> SpeechRecognitionResponse list" where
  "completions t = concat (map completed t)"

definition releases :: "effect list \<Rightarrow> nat list" where
  "releases t = concat (map released t)"

definition frames :: "effect list \<Rightarrow> (nat \<times> frame) list" where
  "frames t = concat (map sent t)"

definition signing_calls :: "effect list \<Rightarrow> (string + string) list" where
  "signing_calls t = concat (map signing t)"

text \<open>A \<^verbatim>\<open>message\<close> event that carries a well-formed, zero-status event with
  \<^verbatim>\<open>final === 1\<close>.\<close>

fun payload_of :: "ws_data \<Rightarrow> payload option" where
  "payload_of (String_data p) = Some p"
| "payload_of (Buffer_data p) = Some p"
| "payload_of Other_data = None"

fun terminal :: "event \<Rightarrow> bool" where
  "terminal (Ws_message n data) =
     (case payload_of data of
        Some (Event r) \<Rightarrow> code r = Integral 0 \<and> final r = 1
      | _ \<Rightarrow> False)"
| "terminal _ = False"

subsection \<open>Sessions that share a credential\<close>


text \<open>The tokens among the results of the signing function.\<close>

fun tokens :: "(string + string) list \<Rightarrow> string list" where
  "tokens [] = []"
| "tokens (Inr t # rs) = t # tokens rs"
| "tokens (Inl err # rs) = tokens rs"



subsection \<open>The duration of stop\<close>

text \<open>
  Time is counted in milliseconds from the call of \<^verbatim>\<open>stop\<close>.  A promise settles at some
  time with some value, or never.  \<^verbatim>\<open>Promise.race\<close> settles with the earlier of the two,
  the first argument winning a tie.  \<^verbatim>\<open>setTimeout\<close> of Node.js replaces a delay below 1
  or above \<open>2\<^sup>3\<^sup>1 - 1\<close> by 1.
\<close>

datatype 'a promise = Never | Settles int 'a

fun race :: "'a promise \<Rightarrow> 'a promise \<Rightarrow> 'a promise" where
  "race Never q = q"
| "race p Never = p"
| "race (Settles t a) (Settles u b) = (if t \<le> u then Settles t a else Settles u b)"

definition timer_delay :: "int \<Rightarrow> int" where
  "timer_delay ms = (if 1 \<le> ms \<and> ms \<le> 2147483647 then ms else 1)"

definition setTimeout :: "int \<Rightarrow> int \<Rightarrow> 'a \<Rightarrow> 'a promise" where
  "setTimeout t0 ms v = Settles (t0 + timer_delay ms) v"

text \<open>
  What the transport does with the end signal: the callback of \<^verbatim>\<open>ws.send\<close> runs at some
  time, with or without an error, or it never runs.  \<open>done_at\<close> below is the time at which
  the read side releases the completion promise, if it ever does.
\<close>

datatype ack = Ack int | Nack int string | No_ack

fun send_callback :: "ack \<Rightarrow> send_result promise" where
  "send_callback (Ack t) = Settles t Send_ok"
| "send_callback (Nack t msg) = Settles t (Send_failed msg)"
| "send_callback No_ack = Never"

fun completion_promise :: "int \<Rightarrow> int option \<Rightarrow> unit promise" where
  "completion_promise t0 None = Never"
| "completion_promise t0 (Some t) = Settles (max t0 t) ()"

definition stop_timed :: "session \<Rightarrow> ack \<Rightarrow> int option \<Rightarrow> (outcome \<times> session) promise" where
  "stop_timed s a done_at =
     (case stop s of
        (Pending, s1) \<Rightarrow>
          (case race (send_callback a) (setTimeout 0 (this_writeTimeout s1) Send_timeout) of
             Never \<Rightarrow> Never
           | Settles t1 r \<Rightarrow>
               (case stop_sent r s1 of
                  (Pending, s2) \<Rightarrow>
                    (case race (completion_promise t1 done_at) (setTimeout t1 10000 ()) of
                       Never \<Rightarrow> Never
                     | Settles t2 u \<Rightarrow> Settles t2 (stop_waited s2))
                | (out, s2) \<Rightarrow> Settles t1 (out, s2)))
      | (out, s1) \<Rightarrow> Settles 0 (out, s1))"


text \<open>When, if ever, a promise settles.\<close>

fun settle_time :: "'a promise \<Rightarrow> int option" where
  "settle_time Never = None"
| "settle_time (Settles t v) = Some t"


subsection \<open>Reading events and traces\<close>

text \<open>The slice type of an event, \<^verbatim>\<open>resp.result?.slice_type\<close>: \<open>None\<close> when the result
  or the property is absent.\<close>

definition slice_of :: "SpeechRecognitionResponse \<Rightarrow> int option" where
  "slice_of r = (case result r of None \<Rightarrow> None | Some x \<Rightarrow> slice_type x)"

text \<open>What a release site appends to the trace: the call of the resolver if the session
  still holds it, nothing if the signal was released before.  Likewise for \<^verbatim>\<open>close()\<close>
  and for the promise numbers.\<close>

definition signal_release :: "session \<Rightarrow> effect list" where
  "signal_release s = (case this_doneResolve s of None \<Rightarrow> [] | Some d \<Rightarrow> [doneResolve_call d])"

definition transport_close :: "session \<Rightarrow> effect list" where
  "transport_close s = (case this_ws s of None \<Rightarrow> [] | Some k \<Rightarrow> [ws_close k])"

definition pending_release :: "session \<Rightarrow> nat list" where
  "pending_release s = (case this_doneResolve s of None \<Rightarrow> [] | Some d \<Rightarrow> [d])"

text \<open>
  The three ways in which a step can move the completion signal: not at all, by releasing it,
  or by a call of \<^verbatim>\<open>start\<close>, which may install a new signal with a fresh number.  The
  invariant says that no signal is released twice and that the resolver held by the session
  belongs to a signal not yet released.
\<close>

definition quiet :: "session \<Rightarrow> session \<Rightarrow> bool" where
  "quiet s s' \<longleftrightarrow> releases (trace s') = releases (trace s)
     \<and> this_doneResolve s' = this_doneResolve s \<and> attempts s' = attempts s"

definition releasing :: "session \<Rightarrow> session \<Rightarrow> bool" where
  "releasing s s' \<longleftrightarrow> releases (trace s') = releases (trace s) @ pending_release s
     \<and> this_doneResolve s' = None \<and> attempts s' = attempts s"

definition starting :: "session \<Rightarrow> session \<Rightarrow> bool" where
  "starting s s' \<longleftrightarrow> releases (trace s') = releases (trace s)
     \<and> (this_doneResolve s' = this_doneResolve s \<or> this_doneResolve s' = Some (attempts s))
     \<and> attempts s' = attempts s + 1"

definition signal_inv :: "session \<Rightarrow> bool" where
  "signal_inv s \<longleftrightarrow> distinct (releases (trace s))
     \<and> (\<forall>d\<in>set (releases (trace s)). d < attempts s)
     \<and> (\<forall>d. this_doneResolve s = Some d \<longrightarrow> d < attempts s \<and> d \<notin> set (releases (trace s)))"


subsection \<open>Example sessions\<close>

text \<open>
  The credential of \<^verbatim>\<open>tests/recognizer.lifecycle.test.ts\<close>, a signing function that
  returns a token and one that throws, a session just constructed, the same session after
  \<^verbatim>\<open>start()\<close>, and after its socket has opened; a terminal event and an event with
  status 1005.
\<close>

definition example_credential :: Credential where
  "example_credential = new_Credential (Integral 1300000000) (Integral 1400000000) ''secret''"

definition example_env :: start_env where
  "example_env = \<lparr> uuid = ''voice-0001'', now = 1700000000, rnd = 41, ctor_throws = None \<rparr>"

definition example_api :: TLSSigAPI where
  "example_api sdk key userId expire = Inr ''eJyr-token''"


definition example_session :: session where
  "example_session = new_SpeechRecognizer example_credential ''16k_zh_en''"

definition starting_session :: session where
  "starting_session = snd (start example_api example_env example_session)"

definition running_session :: session where
  "running_session = on_open 0 starting_session"

definition example_result :: "int option \<Rightarrow> RecognitionResult" where
  "example_result slice =
     \<lparr> slice_type = slice, index = 0, start_time = 0, end_time = 1200,
       voice_text_str = ''hello'', word_size = 0, word_list = [] \<rparr>"

definition example_event :: "int \<Rightarrow> int \<Rightarrow> RecognitionResult option \<Rightarrow> SpeechRecognitionResponse" where
  "example_event c f res =
     \<lparr> code = Integral c, message = (if c = 0 then ''success'' else ''server refused''),
       voice_id = ''voice-0001'', message_id = ''m-1'', final = f, result = res \<rparr>"

definition terminal_event :: SpeechRecognitionResponse where
  "terminal_event = example_event 0 1 None"

definition fatal_event :: SpeechRecognitionResponse where
  "fatal_event = example_event 1005 0 None"



section \<open>Properties of the query string\<close>

subsection \<open>Splitting, joining and encoding\<close>

lemma split_no_sep: "c \<notin> set x \<Longrightarrow> split c x = [x]"
  by (induction x) auto

lemma split_append_sep:
  "c \<notin> set x \<Longrightarrow> split c (x @ c # rest) = x # split c rest"
  by (induction x) auto

lemma split_join:
  "xs \<noteq> [] \<Longrightarrow> \<forall>x\<in>set xs. c \<notin> set x \<Longrightarrow> split c (join [c] xs) = xs"
proof (induction xs)
  case Nil
  then show ?case by simp
next
  case (Cons x xs)
  show ?case
  proof (cases xs)
    case Nil
    with Cons.prems show ?thesis by (simp add: split_no_sep)
  next
    case (Cons y ys)
    with Cons.IH Cons.prems show ?thesis by (simp add: split_append_sep)
  qed
qed

lemma hex_digit_in: "d < 16 \<Longrightarrow> hex_digit d \<in> set ''0123456789ABCDEF''"
  unfolding hex_digit_def by (rule nth_mem) simp

lemma of_char_div16: "(of_char (c::char) :: nat) div 16 < 16"
proof -
  have "(of_char c :: nat) < 256" by simp
  then show ?thesis by arith
qed

lemma hex_digit_neq:
  assumes "d < 16" and "c \<notin> set ''0123456789ABCDEF''"
  shows "hex_digit d \<noteq> c"
  using hex_digit_in[OF assms(1)] assms(2) by metis

lemma percent_avoids:
  assumes "c \<noteq> CHR ''%''" and "c \<notin> set ''0123456789ABCDEF''"
  shows "c \<notin> set (percent x)"
proof -
  have "(of_char x :: nat) mod 16 < 16" by simp
  then have "hex_digit (of_char x mod 16) \<noteq> c" using assms(2) by (rule hex_digit_neq)
  moreover have "hex_digit (of_char x div 16) \<noteq> c"
    using of_char_div16 assms(2) by (rule hex_digit_neq)
  ultimately show ?thesis using assms(1) by (simp add: percent_def)
qed

lemma encode_avoids:
  assumes "\<not> unreserved c" and "c \<noteq> CHR ''%''" and "c \<notin> set ''0123456789ABCDEF''"
  shows "c \<notin> set (encodeURIComponent s)"
proof (induction s)
  case Nil
  show ?case by (simp add: encodeURIComponent_def)
next
  case (Cons x s)
  have "encodeURIComponent (x # s) = (if unreserved x then [x] else percent x) @ encodeURIComponent s"
    by (simp add: encodeURIComponent_def)
  moreover have "c \<notin> set (if unreserved x then [x] else percent x)"
    using assms percent_avoids[of c x] by auto
  ultimately show ?case using Cons.IH by simp
qed

lemma encode_no_amp: "CHR ''&'' \<notin> set (encodeURIComponent s)"
  by (rule encode_avoids) (simp_all add: unreserved_def)

lemma encode_no_eq: "CHR ''='' \<notin> set (encodeURIComponent s)"
  by (rule encode_avoids) (simp_all add: unreserved_def)





text \<open>
  The representation of numbers is coherent: a number is truthy exactly when \<^verbatim>\<open>String\<close>
  prints neither \<^verbatim>\<open>0\<close> nor \<^verbatim>\<open>NaN\<close> for it.
\<close>

lemma digit_char_in: "d < 10 \<Longrightarrow> digit_char d \<in> set ''0123456789''"
  unfolding digit_char_def by (intro nth_mem) simp

lemma digit_char_zero: "d < 10 \<Longrightarrow> digit_char d = CHR ''0'' \<longleftrightarrow> d = 0"
proof -
  assume "d < 10"
  then have "d \<in> {0, 1, 2, 3, 4, 5, 6, 7, 8, 9}" by auto
  then show ?thesis by (auto simp: digit_char_def)
qed

lemma nat_to_string_digits: "set (nat_to_string n) \<subseteq> set ''0123456789''"
proof (induction n rule: nat_to_string.induct)
  case (1 n)
  show ?case
  proof (cases "n < 10")
    case True
    then show ?thesis using digit_char_in[of n] by (simp add: nat_to_string.simps[of n])
  next
    case False
    with 1 digit_char_in[of "n mod 10"] show ?thesis
      by (simp add: nat_to_string.simps[of n])
  qed
qed

lemma nat_to_string_not_Nil: "nat_to_string n \<noteq> []"
  by (simp add: nat_to_string.simps[of n])

lemma nat_to_string_zero: "nat_to_string n = ''0'' \<longleftrightarrow> n = 0"
proof (cases "n < 10")
  case True
  then show ?thesis by (simp add: nat_to_string.simps[of n] digit_char_zero)
next
  case False
  then have "length (nat_to_string n) \<ge> 2"
    using nat_to_string_not_Nil[of "n div 10"]
    by (cases "nat_to_string (n div 10)") (simp_all add: nat_to_string.simps[of n])
  with False show ?thesis by auto
qed

lemma decimal_zero: "decimal i = ''0'' \<longleftrightarrow> i = 0"
  by (auto simp: decimal_def nat_to_string_zero)

lemma decimal_not_NaN: "decimal i \<noteq> ''NaN''"
proof
  assume a: "decimal i = ''NaN''"
  show False
  proof (cases "i < 0")
    case True
    with a show False by (simp add: decimal_def)
  next
    case False
    with a have "CHR ''N'' \<in> set (nat_to_string (nat i))" by (simp add: decimal_def)
    with nat_to_string_digits[of "nat i"] show False by auto
  qed
qed

lemma is_number_truthy:
  "is_number n \<Longrightarrow> truthy n \<longleftrightarrow> String_number n \<noteq> ''0'' \<and> String_number n \<noteq> ''NaN''"
  by (cases n) (simp_all add: decimal_zero decimal_not_NaN)

lemma is_number_examples:
  "is_number (Integral 1005)"
  "\<not> is_number (Integral (10 ^ 21))"
  "is_number (Other_number ''1e+21'')"
  by simp_all

lemma map_of_assign: "map_of (assign m k v) = (map_of m)(k \<mapsto> v)"
  by (induction m) (auto simp: fun_eq_iff)

lemma assign_fresh: "k \<notin> set (map fst m) \<Longrightarrow> assign m k v = m @ [(k, v)]"
  by (induction m) auto

lemma keys_assign: "fst ` set (assign m k v) = insert k (fst ` set m)"
  by (induction m) auto

lemma distinct_assign: "distinct (map fst m) \<Longrightarrow> distinct (map fst (assign m k v))"
proof (induction m)
  case Nil
  show ?case by simp
next
  case (Cons a m)
  have "fst a \<notin> set (map fst (assign m k v))" if "fst a \<noteq> k"
    using that Cons.prems by (simp add: keys_assign)
  with Cons show ?case by auto
qed

lemma part_key: "plain k \<Longrightarrow> takeWhile (\<lambda>c. c \<noteq> CHR ''='') (k @ CHR ''='' # e) = k"
  by (induction k) (auto simp: plain_def)

lemma part_value: "plain k \<Longrightarrow> drop (Suc 0) (dropWhile (\<lambda>c. c \<noteq> CHR ''='') (k @ CHR ''='' # e)) = e"
  by (induction k) (auto simp: plain_def)

lemma query_pairs_encodeParams:
  assumes "m \<noteq> []" and "\<forall>k\<in>set (Object_keys m). plain k"
  shows "query_pairs (encodeParams m) =
           map (\<lambda>k. (k, encodeURIComponent (get_prop m k))) (sort (Object_keys m))"
proof -
  let ?f = "\<lambda>k. k @ ''='' @ encodeURIComponent (get_prop m k)"
  let ?ks = "sort (Object_keys m)"
  have ne: "map ?f ?ks \<noteq> []" using assms(1) by (cases m) (simp_all add: Object_keys_def)
  have plain: "\<forall>k\<in>set ?ks. plain k" using assms(2) by simp
  then have "\<forall>x\<in>set (map ?f ?ks). CHR ''&'' \<notin> set x"
    by (auto simp: plain_def encode_no_amp)
  with ne have "split CHR ''&'' (join ''&'' (map ?f ?ks)) = map ?f ?ks"
    by (rule split_join)
  then have "query_pairs (encodeParams m) =
      map (\<lambda>k. (takeWhile (\<lambda>c. c \<noteq> CHR ''='') (?f k), drop 1 (dropWhile (\<lambda>c. c \<noteq> CHR ''='') (?f k)))) ?ks"
    by (simp add: query_pairs_def encodeParams_def comp_def)
  also have "\<dots> = map (\<lambda>k. (k, encodeURIComponent (get_prop m k))) ?ks"
    using plain by (intro map_cong) (auto simp: part_key part_value)
  finally show ?thesis .
qed


lemma query_keys_encodeParams:
  assumes "m \<noteq> []" and "\<forall>k\<in>set (Object_keys m). plain k"
  shows "query_keys (encodeParams m) = sort (Object_keys m)"
  by (simp add: query_keys_def query_pairs_encodeParams[OF assms] comp_def)

lemma query_lookup_encodeParams:
  assumes "m \<noteq> []" and "\<forall>k\<in>set (Object_keys m). plain k"
  shows "map_of (query_pairs (encodeParams m)) k = map_option encodeURIComponent (map_of m k)"
proof (cases "map_of m k")
  case None
  then have "k \<notin> set (sort (Object_keys m))"
    by (simp add: Object_keys_def map_of_eq_None_iff)
  then show ?thesis
    using None by (simp add: query_pairs_encodeParams[OF assms] map_of_map_restrict restrict_map_def)
next
  case (Some v)
  then have "k \<in> set (sort (Object_keys m))"
    by (auto simp: Object_keys_def dest: map_of_SomeD intro: rev_image_eqI)
  then show ?thesis
    using Some by (simp add: query_pairs_encodeParams[OF assms] map_of_map_restrict get_prop_def)
qed

subsection \<open>The keys written by toMap\<close>

lemma keys_assign_if:
  "fst ` set (assign_if c k v m) = (if c then insert k (fst ` set m) else fst ` set m)"
  by (simp add: assign_if_def keys_assign)

lemma map_of_assign_if:
  "map_of (assign_if c k v m) = (if c then (map_of m)(k \<mapsto> v) else map_of m)"
  by (simp add: assign_if_def map_of_assign)

lemma distinct_assign_if:
  "distinct (map fst m) \<Longrightarrow> distinct (map fst (assign_if c k v m))"
  by (simp add: assign_if_def distinct_assign)

lemma assign_if_not_Nil: "m \<noteq> [] \<Longrightarrow> assign_if c k v m \<noteq> []"
  by (cases m) (simp_all add: assign_if_def)

lemma toMap_not_Nil: "toMap p \<noteq> []"
  unfolding toMap_def by (intro assign_if_not_Nil) simp

lemma toMap_distinct: "distinct (map fst (toMap p))"
  unfolding toMap_def by (intro distinct_assign_if) simp



lemma all_keys_plain: "\<forall>k\<in>set all_keys. plain k"
  by (simp add: all_keys_def plain_def)

lemma all_keys_sorted: "sorted all_keys"
  by (simp add: all_keys_def)

lemma all_keys_distinct: "distinct all_keys"
  by (simp add: all_keys_def)

lemma in_keys_assign_if:
  "x \<in> fst ` set (assign_if c k v m) \<longleftrightarrow> (c \<and> x = k) \<or> x \<in> fst ` set m"
  by (auto simp: keys_assign_if)

lemma toMap_key_iff:
  "k \<in> fst ` set (toMap p) \<longleftrightarrow>
     (truthy (maxSpeakTime p) \<and> k = ''max_speak_time'') \<or>
     (truthy (vadSilenceTime p) \<and> k = ''vad_silence_time'') \<or>
     (truthy (wordInfo p) \<and> k = ''word_info'') \<or>
     (truthy (convertNumMode p) \<and> k = ''convert_num_mode'') \<or>
     (truthy (filterPunc p) \<and> k = ''filter_punc'') \<or>
     (truthy (filterModal p) \<and> k = ''filter_modal'') \<or>
     (truthy (filterDirty p) \<and> k = ''filter_dirty'') \<or>
     (customizationId p \<noteq> [] \<and> k = ''customization_id'') \<or>
     (hotwordId p \<noteq> [] \<and> k = ''hotword_id'') \<or>
     k \<in> set [''secretid'', ''timestamp'', ''expired'', ''nonce'', ''engine_model_type'',
               ''voice_id'', ''voice_format'', ''needvad'']"
  unfolding toMap_def in_keys_assign_if by simp


lemma toMap_plain: "\<forall>k\<in>set (Object_keys (toMap p)). plain k"
proof
  fix k
  assume "k \<in> set (Object_keys (toMap p))"
  then have "k \<in> fst ` set (toMap p)" by (simp add: Object_keys_def)
  then show "plain k" unfolding toMap_key_iff by (auto simp: plain_def)
qed

lemma get_prop_append:
  assumes "k \<in> fst ` set m"
  shows "get_prop (m @ r) k = get_prop m k"
proof -
  from assms obtain v where "map_of m k = Some v"
    using map_of_eq_None_iff[of m k] by (cases "map_of m k") auto
  then show ?thesis by (simp add: get_prop_def)
qed

lemma signature_not_in_toMap: "''signature'' \<notin> fst ` set (toMap p)"
  by (simp add: toMap_key_iff)

lemma signed_map: "assign (toMap p) ''signature'' sig = toMap p @ [(''signature'', sig)]"
  using signature_not_in_toMap by (simp add: assign_fresh)

lemma signed_plain: "\<forall>k\<in>set (Object_keys (toMap p @ [(''signature'', sig)])). plain k"
  using toMap_plain[of p] by (simp add: Object_keys_def plain_def)

lemma signed_pairs:
  "query_pairs (buildQueryStringWithSignature p sig) =
     map (\<lambda>k. (k, encodeURIComponent (get_prop (toMap p @ [(''signature'', sig)]) k)))
         (sort (Object_keys (toMap p @ [(''signature'', sig)])))"
  unfolding buildQueryStringWithSignature_def signed_map
  by (rule query_pairs_encodeParams[OF _ signed_plain]) simp

lemma unsigned_pairs:
  "query_pairs (buildQueryString p) =
     map (\<lambda>k. (k, encodeURIComponent (get_prop (toMap p) k))) (sort (Object_keys (toMap p)))"
  unfolding buildQueryString_def
  by (rule query_pairs_encodeParams[OF toMap_not_Nil toMap_plain])

lemma signed_keys:
  "query_keys (buildQueryStringWithSignature p sig) = sort (Object_keys (toMap p) @ [''signature''])"
  by (simp add: query_keys_def signed_pairs comp_def Object_keys_def)

lemma unsigned_keys: "query_keys (buildQueryString p) = sort (Object_keys (toMap p))"
  by (simp add: query_keys_def unsigned_pairs comp_def)

lemma signed_without_signature:
  "filter (\<lambda>kv. fst kv \<noteq> ''signature'') (query_pairs (buildQueryStringWithSignature p sig))
     = query_pairs (buildQueryString p)"
proof -
  let ?m = "toMap p" and ?ms = "toMap p @ [(''signature'', sig)]"
  have "''signature'' \<notin> set (map fst ?m)"
    using signature_not_in_toMap[of p] by simp
  then have "filter (\<lambda>k. k \<noteq> ''signature'') (map fst ?m) = map fst ?m"
    by (intro filter_True) metis
  then have keys: "filter (\<lambda>k. k \<noteq> ''signature'') (Object_keys ?ms) = Object_keys ?m"
    by (simp add: Object_keys_def)
  have "filter (\<lambda>kv. fst kv \<noteq> ''signature'') (query_pairs (buildQueryStringWithSignature p sig))
      = map (\<lambda>k. (k, encodeURIComponent (get_prop ?ms k)))
            (filter (\<lambda>k. k \<noteq> ''signature'') (sort (Object_keys ?ms)))"
    by (simp add: signed_pairs filter_map comp_def)
  also have "\<dots> = map (\<lambda>k. (k, encodeURIComponent (get_prop ?ms k))) (sort (Object_keys ?m))"
    by (simp only: filter_sort keys)
  also have "\<dots> = map (\<lambda>k. (k, encodeURIComponent (get_prop ?m k))) (sort (Object_keys ?m))"
    by (intro map_cong) (simp_all add: get_prop_append Object_keys_def)
  finally show ?thesis by (simp add: unsigned_pairs)
qed

lemma signed_lookup_signature:
  "map_of (query_pairs (buildQueryStringWithSignature p sig)) ''signature'' = Some (encodeURIComponent sig)"
proof -
  have "map_of (query_pairs (buildQueryStringWithSignature p sig)) ''signature''
      = map_option encodeURIComponent (map_of (toMap p @ [(''signature'', sig)]) ''signature'')"
    unfolding buildQueryStringWithSignature_def signed_map
    by (rule query_lookup_encodeParams[OF _ signed_plain]) simp
  also have "map_of (toMap p @ [(''signature'', sig)]) ''signature'' = Some sig"
    using signature_not_in_toMap[of p] by (simp add: map_of_eq_None_iff map_add_Some_iff)
  finally show ?thesis by simp
qed


text \<open>
  C3. For every parameter object and every signature string, the signed query string with
  its \<^verbatim>\<open>signature\<close> pair removed is the unsigned query string, pair by pair and in the
  same order; the unsigned string has no \<^verbatim>\<open>signature\<close> key and the signed one carries
  the encoded signature; in both strings the keys are sorted lexicographically and occur once.
\<close>

theorem signed_unsigned_differ_by_signature:
  "filter (\<lambda>kv. fst kv \<noteq> ''signature'') (query_pairs (buildQueryStringWithSignature p sig))
       = query_pairs (buildQueryString p)
   \<and> ''signature'' \<notin> set (query_keys (buildQueryString p))
   \<and> map_of (query_pairs (buildQueryStringWithSignature p sig)) ''signature''
       = Some (encodeURIComponent sig)
   \<and> sorted (query_keys (buildQueryString p)) \<and> distinct (query_keys (buildQueryString p))
   \<and> sorted (query_keys (buildQueryStringWithSignature p sig))
   \<and> distinct (query_keys (buildQueryStringWithSignature p sig))"
  using signed_without_signature[of p sig] signed_lookup_signature[of p sig]
    signature_not_in_toMap[of p] toMap_distinct[of p]
  by (simp add: signed_keys unsigned_keys Object_keys_def)



subsection \<open>Where the signature stands\<close>

lemma toMap_keys_known: "set (Object_keys (toMap p)) \<subseteq> set all_keys"
proof
  fix k
  assume "k \<in> set (Object_keys (toMap p))"
  then have "k \<in> fst ` set (toMap p)" by (simp add: Object_keys_def)
  then show "k \<in> set all_keys" unfolding toMap_key_iff by (auto simp: all_keys_def)
qed

lemma sort_known_keys:
  assumes "distinct ks" and "set ks \<subseteq> set all_keys"
  shows "sort ks = filter (\<lambda>k. k \<in> set ks) all_keys"
proof (rule sorted_distinct_set_unique)
  show "sorted (sort ks)" by simp
  show "distinct (sort ks)" using assms(1) by simp
  show "sorted (filter (\<lambda>k. k \<in> set ks) all_keys)"
    using all_keys_sorted by (rule sorted_wrt_filter)
  show "distinct (filter (\<lambda>k. k \<in> set ks) all_keys)"
    using all_keys_distinct by simp
  show "set (sort ks) = set (filter (\<lambda>k. k \<in> set ks) all_keys)"
    using assms(2) by auto
qed

lemma all_keys_split:
  "all_keys =
     [''convert_num_mode'', ''customization_id'', ''engine_model_type'', ''expired'',
      ''filter_dirty'', ''filter_modal'', ''filter_punc'', ''hotword_id'', ''max_speak_time'',
      ''needvad'', ''nonce'']
     @ [''secretid'', ''signature'', ''timestamp'']
     @ [''vad_silence_time'', ''voice_format'', ''voice_id'', ''word_info'']"
  by (simp add: all_keys_def)

lemma required_keys_present:
  "''secretid'' \<in> fst ` set (toMap p)" "''timestamp'' \<in> fst ` set (toMap p)"
  "''voice_id'' \<in> fst ` set (toMap p)"
  by (simp_all add: toMap_key_iff)

lemma example_toMap:
  "toMap example_params =
     [(''secretid'', ''1300403317''), (''timestamp'', ''1700000000''), (''expired'', ''1700086400''),
      (''nonce'', ''42''), (''engine_model_type'', ''16k_zh''), (''voice_id'', ''test-voice-001''),
      (''voice_format'', ''1''), (''needvad'', ''1''), (''convert_num_mode'', ''1'')]"
  by (simp add: example_params_def example_opts_def toMap_def new_SignatureParams_def nullish_def
      assign_if_def decimal_def nat_to_string.simps digit_char_def)

lemma example_signed:
  "buildQueryStringWithSignature example_params ''eJyr+/='' =
     ''convert_num_mode=1&engine_model_type=16k_zh&expired=1700086400&needvad=1&nonce=42&secretid=1300403317&signature=eJyr%2B%2F%3D&timestamp=1700000000&voice_format=1&voice_id=test-voice-001''"
  unfolding buildQueryStringWithSignature_def example_toMap
  by (simp add: encodeParams_def Object_keys_def get_prop_def
      encodeURIComponent_def unreserved_def percent_def hex_digit_def)


text \<open>
  C4, as stated, fails: the signature key is not appended after the other keys.  For the
  parameters of the test suite the signed query string ends with \<^verbatim>\<open>voice_id\<close>, and the
  signature stands between \<^verbatim>\<open>secretid\<close> and \<^verbatim>\<open>timestamp\<close>.
\<close>

theorem signature_not_last_example:
  "buildQueryStringWithSignature example_params ''eJyr+/='' =
     ''convert_num_mode=1&engine_model_type=16k_zh&expired=1700086400&needvad=1&nonce=42&secretid=1300403317&signature=eJyr%2B%2F%3D&timestamp=1700000000&voice_format=1&voice_id=test-voice-001''
   \<and> last (query_keys (buildQueryStringWithSignature example_params ''eJyr+/='')) = ''voice_id''
   \<and> last (query_keys (buildQueryStringWithSignature example_params ''eJyr+/='')) \<noteq> ''signature''"
  unfolding example_signed by (simp add: query_keys_def query_pairs_def)

text \<open>
  C4, amended. In the signed query string the signature key belongs to the key set that is
  sorted: the keys of the string are the sorted keys of the parameter object after
  \<^verbatim>\<open>params["signature"] = userSig\<close>, so the signature stands at its lexicographic place,
  directly after \<^verbatim>\<open>secretid\<close> and directly before \<^verbatim>\<open>timestamp\<close>, and further keys
  follow it.
\<close>

theorem signature_sorted_with_keys:
  "query_keys (buildQueryStringWithSignature p sig)
     = sort (Object_keys (assign (toMap p) ''signature'' sig))
   \<and> (\<exists>pre post. query_keys (buildQueryStringWithSignature p sig)
          = pre @ [''secretid'', ''signature'', ''timestamp''] @ post \<and> post \<noteq> [])"
proof
  let ?ks = "Object_keys (toMap p) @ [''signature'']"
  let ?P = "\<lambda>k. k \<in> set ?ks"
  show sorted_set: "query_keys (buildQueryStringWithSignature p sig)
     = sort (Object_keys (assign (toMap p) ''signature'' sig))"
    by (simp add: signed_keys signed_map Object_keys_def)
  have "distinct ?ks"
    using toMap_distinct[of p] signature_not_in_toMap[of p] by (simp add: Object_keys_def)
  moreover have "set ?ks \<subseteq> set all_keys"
    using toMap_keys_known[of p] by (simp add: all_keys_def)
  ultimately have "sort ?ks = filter ?P all_keys" by (rule sort_known_keys)
  also have "\<dots> = filter ?P [''convert_num_mode'', ''customization_id'', ''engine_model_type'',
        ''expired'', ''filter_dirty'', ''filter_modal'', ''filter_punc'', ''hotword_id'',
        ''max_speak_time'', ''needvad'', ''nonce'']
      @ [''secretid'', ''signature'', ''timestamp'']
      @ filter ?P [''vad_silence_time'', ''voice_format'', ''voice_id'', ''word_info'']"
    using required_keys_present[of p] unfolding all_keys_split filter_append
    by (simp add: Object_keys_def)
  finally have eq: "query_keys (buildQueryStringWithSignature p sig) =
      filter ?P [''convert_num_mode'', ''customization_id'', ''engine_model_type'',
        ''expired'', ''filter_dirty'', ''filter_modal'', ''filter_punc'', ''hotword_id'',
        ''max_speak_time'', ''needvad'', ''nonce'']
      @ [''secretid'', ''signature'', ''timestamp'']
      @ filter ?P [''vad_silence_time'', ''voice_format'', ''voice_id'', ''word_info'']"
    by (simp only: signed_keys)
  have "filter ?P [''vad_silence_time'', ''voice_format'', ''voice_id'', ''word_info''] \<noteq> []"
    using required_keys_present(3)[of p] by (simp add: filter_empty_conv Object_keys_def)
  with eq show "\<exists>pre post. query_keys (buildQueryStringWithSignature p sig)
          = pre @ [''secretid'', ''signature'', ''timestamp''] @ post \<and> post \<noteq> []"
    by blast
qed

subsection \<open>Optional keys\<close>

lemma map_of_assign_if_at:
  "map_of (assign_if c k v m) k' = (if c \<and> k' = k then Some v else map_of m k')"
  by (simp add: assign_if_def map_of_assign)

lemma query_lookup:
  "map_of (query_pairs (buildQueryString p)) k = map_option encodeURIComponent (map_of (toMap p) k)"
  unfolding buildQueryString_def by (rule query_lookup_encodeParams[OF toMap_not_Nil toMap_plain])

lemma toMap_optional:
  "map_of (toMap p) ''hotword_id'' = (if hotwordId p \<noteq> [] then Some (hotwordId p) else None)"
  "map_of (toMap p) ''customization_id'' =
     (if customizationId p \<noteq> [] then Some (customizationId p) else None)"
  "map_of (toMap p) ''filter_dirty'' =
     (if truthy (filterDirty p) then Some (String_number (filterDirty p)) else None)"
  "map_of (toMap p) ''filter_modal'' =
     (if truthy (filterModal p) then Some (String_number (filterModal p)) else None)"
  "map_of (toMap p) ''filter_punc'' =
     (if truthy (filterPunc p) then Some (String_number (filterPunc p)) else None)"
  "map_of (toMap p) ''convert_num_mode'' =
     (if truthy (convertNumMode p) then Some (String_number (convertNumMode p)) else None)"
  "map_of (toMap p) ''word_info'' =
     (if truthy (wordInfo p) then Some (String_number (wordInfo p)) else None)"
  "map_of (toMap p) ''vad_silence_time'' =
     (if truthy (vadSilenceTime p) then Some (String_number (vadSilenceTime p)) else None)"
  "map_of (toMap p) ''max_speak_time'' =
     (if truthy (maxSpeakTime p) then Some (String_number (maxSpeakTime p)) else None)"
  by (simp_all add: toMap_def map_of_assign_if_at)




text \<open>
  Numbers that \<^verbatim>\<open>String\<close> does not print as a decimal numeral: \<open>10\<^sup>2\<^sup>1\<close> is sent as
  \<^verbatim>\<open>1e%2B21\<close>, a field that holds \<^verbatim>\<open>NaN\<close> is omitted, one half is sent as \<^verbatim>\<open>0.5\<close>.
\<close>

lemma optional_keys_examples:
  "map_of (query_pairs (buildQueryString
       (example_params\<lparr>filterDirty := Other_number ''1e+21'', filterModal := NaN,
           filterPunc := Integral 3, wordInfo := Other_number ''0.5''\<rparr>))) ''filter_dirty''
     = Some ''1e%2B21''"
  "map_of (query_pairs (buildQueryString
       (example_params\<lparr>filterDirty := Other_number ''1e+21'', filterModal := NaN,
           filterPunc := Integral 3, wordInfo := Other_number ''0.5''\<rparr>))) ''filter_modal''
     = None"
  "map_of (query_pairs (buildQueryString
       (example_params\<lparr>filterDirty := Other_number ''1e+21'', filterModal := NaN,
           filterPunc := Integral 3, wordInfo := Other_number ''0.5''\<rparr>))) ''filter_punc''
     = Some ''3''"
  "map_of (query_pairs (buildQueryString
       (example_params\<lparr>filterDirty := Other_number ''1e+21'', filterModal := NaN,
           filterPunc := Integral 3, wordInfo := Other_number ''0.5''\<rparr>))) ''word_info''
     = Some ''0.5''"
  unfolding query_lookup toMap_optional
  by (simp_all add: decimal_def nat_to_string.simps digit_char_def encodeURIComponent_def
      unreserved_def percent_def hex_digit_def)


section \<open>Properties of the session\<close>

subsection \<open>Fields after each operation\<close>

lemma new_ASRError_fields [simp]:
  "err_code (new_ASRError c m) = c"
  "err_message (new_ASRError c m) = ''trtc-asr error ['' @ String_number c @ '']: '' @ m"
  by (simp_all add: new_ASRError_def)

lemma decimal_1005: "decimal 1005 = ''1005''"
  by (simp add: decimal_def nat_to_string.simps digit_char_def)

lemma emit_fields [simp]:
  "trace (emit e s) = trace s @ [e]"
  "this_state (emit e s) = this_state s"
  "this_ws (emit e s) = this_ws s"
  "this_doneResolve (emit e s) = this_doneResolve s"
  "this_donePromise (emit e s) = this_donePromise s"
  "this_credential (emit e s) = this_credential s"
  "this_voiceId (emit e s) = this_voiceId s"
  "attempts (emit e s) = attempts s"
  "sockets (emit e s) = sockets s"
  "stop_sending (emit e s) = stop_sending s"
  "stop_waiting (emit e s) = stop_waiting s"
  by (simp_all add: emit_def)

lemma release_fields [simp]:
  "trace (release s) = trace s @ signal_release s"
  "this_doneResolve (release s) = None"
  "this_state (release s) = this_state s"
  "this_ws (release s) = this_ws s"
  "this_donePromise (release s) = this_donePromise s"
  "this_credential (release s) = this_credential s"
  "attempts (release s) = attempts s"
  "sockets (release s) = sockets s"
  "stop_sending (release s) = stop_sending s"
  "stop_waiting (release s) = stop_waiting s"
  by (simp_all add: release_def signal_release_def split: option.splits)

lemma close_fields [simp]:
  "trace (close s) = trace s @ transport_close s"
  "this_ws (close s) = None"
  "this_state (close s) = this_state s"
  "this_doneResolve (close s) = this_doneResolve s"
  "this_donePromise (close s) = this_donePromise s"
  "this_credential (close s) = this_credential s"
  "attempts (close s) = attempts s"
  "sockets (close s) = sockets s"
  "stop_sending (close s) = stop_sending s"
  "stop_waiting (close s) = stop_waiting s"
  by (simp_all add: close_def transport_close_def split: option.splits)

lemma signal_release_emit [simp]: "signal_release (emit e s) = signal_release s"
  by (simp add: signal_release_def)

lemma signal_release_close [simp]: "signal_release (close s) = signal_release s"
  by (simp add: signal_release_def)

lemma transport_close_emit [simp]: "transport_close (emit e s) = transport_close s"
  by (simp add: transport_close_def)

lemma dispatchEvent_fields [simp]:
  "this_state (dispatchEvent r s) = this_state s"
  "this_ws (dispatchEvent r s) = this_ws s"
  "this_doneResolve (dispatchEvent r s) = this_doneResolve s"
  "this_donePromise (dispatchEvent r s) = this_donePromise s"
  "this_credential (dispatchEvent r s) = this_credential s"
  "attempts (dispatchEvent r s) = attempts s"
  "sockets (dispatchEvent r s) = sockets s"
  "stop_sending (dispatchEvent r s) = stop_sending s"
  "stop_waiting (dispatchEvent r s) = stop_waiting s"
  "signal_release (dispatchEvent r s) = signal_release s"
  by (simp_all add: dispatchEvent_def Let_def)

lemma dispatchEvent_trace:
  "trace (dispatchEvent r s) = trace s @
     (if slice_of r = Some 0 then [onSentenceBegin r]
      else if slice_of r = Some 1 then [onRecognitionResultChange r]
      else if slice_of r = Some 2 then [onSentenceEnd r]
      else if final r = 1 then [] else [onRecognitionStart r])"
  by (simp add: dispatchEvent_def slice_of_def Let_def)


lemma assign_voiceId_fields [simp]:
  "this_credential (assign_voiceId env s) = this_credential s"
  "this_state (assign_voiceId env s) = this_state s"
  "this_voiceId (assign_voiceId env s) = (if this_voiceId s = [] then uuid env else this_voiceId s)"
  by (simp_all add: assign_voiceId_def)



subsection \<open>States\<close>

lemma handlePayload_state [simp]: "this_state (handlePayload p s) = this_state s"
  by (cases p) (simp_all add: handlePayload_def Let_def)

lemma handleMessage_state [simp]: "this_state (handleMessage d s) = this_state s"
  by (cases d) (simp_all add: handleMessage_def)

lemma on_close_state [simp]: "this_state (on_close s) = this_state s"
  by (simp add: on_close_def)



lemma stop_settles_stopped:
  "this_state s = RUNNING \<Longrightarrow> fst (stop s) \<noteq> Pending \<Longrightarrow>
     fst (stop s) = Rejected (new_ASRError NOT_STARTED ''connection not established'')
     \<and> this_state (snd (stop s)) = STOPPED"
  by (simp add: stop_def Let_def split: option.splits)

lemma stop_pending:
  "this_state s = RUNNING \<Longrightarrow> fst (stop s) = Pending \<Longrightarrow>
     this_state (snd (stop s)) = STOPPING \<and> stop_sending (snd (stop s)) = stop_sending s + 1"
  by (simp add: stop_def Let_def split: option.splits)

lemma stop_waited_stopped:
  "fst (stop_waited s) = Resolved \<and> this_state (snd (stop_waited s)) = STOPPED"
  by (simp add: stop_waited_def)

lemma stop_sent_stopped:
  "fst (stop_sent r s) \<noteq> Pending \<Longrightarrow> this_state (snd (stop_sent r s)) = STOPPED"
  by (cases r) (simp_all add: stop_sent_def stop_waited_def split: option.splits)

lemma stop_sent_state:
  "this_state (snd (stop_sent r s)) = STOPPED \<or> this_state (snd (stop_sent r s)) = this_state s"
  by (cases r) (simp_all add: stop_sent_def stop_waited_def split: option.splits)

lemma start_refused_state:
  "this_state s \<noteq> IDLE \<Longrightarrow> this_state (snd (start api env s)) = this_state s"
  by (simp add: start_def Let_def)

subsection \<open>What each step adds to the trace\<close>

lemma releases_simps [simp]:
  "releases [] = []"
  "releases (t @ u) = releases t @ releases u"
  "releases (e # t) = released e @ releases t"
  "releases (signal_release s) = pending_release s"
  "releases (transport_close s) = []"
  by (auto simp: releases_def signal_release_def pending_release_def transport_close_def
      split: option.splits)

lemma completions_simps [simp]:
  "completions [] = []"
  "completions (t @ u) = completions t @ completions u"
  "completions (e # t) = completed e @ completions t"
  "completions (signal_release s) = []"
  "completions (transport_close s) = []"
  by (auto simp: completions_def signal_release_def transport_close_def split: option.splits)

lemma derive_userSig_trace:
  "trace (snd (derive_userSig api s)) = trace s @
     (if userSig (this_credential s) = []
      then [genUserSig_call (sdkAppId (this_credential s)) (secretKey (this_credential s))
              (this_voiceId s) 86400
              (genUserSig api (sdkAppId (this_credential s)) (secretKey (this_credential s))
                 (this_voiceId s) 86400)]
      else [])"
  by (simp add: derive_userSig_def Let_def split: sum.splits)

lemma derive_userSig_fields [simp]:
  "this_state (snd (derive_userSig api s)) = this_state s"
  "this_ws (snd (derive_userSig api s)) = this_ws s"
  "this_doneResolve (snd (derive_userSig api s)) = this_doneResolve s"
  "this_donePromise (snd (derive_userSig api s)) = this_donePromise s"
  "this_voiceId (snd (derive_userSig api s)) = this_voiceId s"
  "attempts (snd (derive_userSig api s)) = attempts s"
  "sockets (snd (derive_userSig api s)) = sockets s"
  "stop_sending (snd (derive_userSig api s)) = stop_sending s"
  "stop_waiting (snd (derive_userSig api s)) = stop_waiting s"
  by (simp_all add: derive_userSig_def Let_def split: sum.splits)

lemma assign_voiceId_more [simp]:
  "trace (assign_voiceId env s) = trace s"
  "this_ws (assign_voiceId env s) = this_ws s"
  "this_doneResolve (assign_voiceId env s) = this_doneResolve s"
  "this_donePromise (assign_voiceId env s) = this_donePromise s"
  "attempts (assign_voiceId env s) = attempts s"
  "sockets (assign_voiceId env s) = sockets s"
  "stop_sending (assign_voiceId env s) = stop_sending s"
  "stop_waiting (assign_voiceId env s) = stop_waiting s"
  by (simp_all add: assign_voiceId_def)

lemma open_socket_summary:
  "releases (trace (snd (open_socket env n s))) = releases (trace s)"
  "completions (trace (snd (open_socket env n s))) = completions (trace s)"
  "this_doneResolve (snd (open_socket env n s)) = Some n"
  "attempts (snd (open_socket env n s)) = attempts s"
  by (simp_all add: open_socket_def Let_def split: option.splits)

lemma connect_summary:
  "releases (trace (snd (connect api env n s))) = releases (trace s)"
  "completions (trace (snd (connect api env n s))) = completions (trace s)"
  "this_doneResolve (snd (connect api env n s)) = this_doneResolve s
     \<or> this_doneResolve (snd (connect api env n s)) = Some n"
  "attempts (snd (connect api env n s)) = attempts s"
proof -
  obtain r s1 where d: "derive_userSig api (assign_voiceId env s) = (r, s1)"
    by (cases "derive_userSig api (assign_voiceId env s)")
  have t: "trace s1 = trace (snd (derive_userSig api (assign_voiceId env s)))"
    and f: "this_doneResolve s1 = this_doneResolve s" "attempts s1 = attempts s"
    using d derive_userSig_fields[of api "assign_voiceId env s"] by simp_all
  have rc: "releases (trace s1) = releases (trace s)" "completions (trace s1) = completions (trace s)"
    unfolding t derive_userSig_trace by simp_all
  show "releases (trace (snd (connect api env n s))) = releases (trace s)"
    using d rc f by (cases r) (simp_all add: connect_def Let_def open_socket_summary)
  show "completions (trace (snd (connect api env n s))) = completions (trace s)"
    using d rc f by (cases r) (simp_all add: connect_def Let_def open_socket_summary)
  show "this_doneResolve (snd (connect api env n s)) = this_doneResolve s
     \<or> this_doneResolve (snd (connect api env n s)) = Some n"
    using d rc f by (cases r) (simp_all add: connect_def Let_def open_socket_summary)
  show "attempts (snd (connect api env n s)) = attempts s"
    using d rc f by (cases r) (simp_all add: connect_def Let_def open_socket_summary)
qed

lemma start_summary:
  "releases (trace (snd (start api env s))) = releases (trace s)"
  "completions (trace (snd (start api env s))) = completions (trace s)"
  "this_doneResolve (snd (start api env s)) = this_doneResolve s
     \<or> this_doneResolve (snd (start api env s)) = Some (attempts s)"
  "attempts (snd (start api env s)) = attempts s + 1"
proof -
  let ?s0 = "s\<lparr>attempts := attempts s + 1, this_state := STARTING\<rparr>"
  obtain c s1 where k: "connect api env (attempts s) ?s0 = (c, s1)"
    by (cases "connect api env (attempts s) ?s0")
  have s1: "releases (trace s1) = releases (trace s)" "completions (trace s1) = completions (trace s)"
    "this_doneResolve s1 = this_doneResolve s \<or> this_doneResolve s1 = Some (attempts s)"
    "attempts s1 = attempts s + 1"
    using connect_summary[of api env "attempts s" ?s0] k by simp_all
  show "releases (trace (snd (start api env s))) = releases (trace s)"
    using k s1 by (cases c) (simp_all add: start_def Let_def)
  show "completions (trace (snd (start api env s))) = completions (trace s)"
    using k s1 by (cases c) (simp_all add: start_def Let_def)
  show "this_doneResolve (snd (start api env s)) = this_doneResolve s
     \<or> this_doneResolve (snd (start api env s)) = Some (attempts s)"
    using k s1 by (cases c) (auto simp: start_def Let_def)
  show "attempts (snd (start api env s)) = attempts s + 1"
    using k s1 by (cases c) (simp_all add: start_def Let_def)
qed


lemma signal_inv_preserved:
  assumes "signal_inv s" and "quiet s s' \<or> releasing s s' \<or> starting s s'"
  shows "signal_inv s'"
  using assms
  by (cases "this_doneResolve s")
     (auto simp: signal_inv_def quiet_def releasing_def starting_def pending_release_def
           less_Suc_eq)

lemma handlePayload_moves: "quiet s (handlePayload p s) \<or> releasing s (handlePayload p s)"
proof (cases p)
  case (Malformed err)
  then show ?thesis by (simp add: handlePayload_def quiet_def)
next
  case (Event r)
  then show ?thesis
    by (simp add: handlePayload_def quiet_def releasing_def Let_def dispatchEvent_trace)
qed

lemma handleMessage_moves: "quiet s (handleMessage d s) \<or> releasing s (handleMessage d s)"
  using handlePayload_moves by (cases d) (simp_all add: handleMessage_def quiet_def)

lemma on_close_moves: "releasing s (on_close s)"
  by (simp add: on_close_def releasing_def pending_release_def signal_release_def
      split: option.splits)

lemma stop_moves: "quiet s (snd (stop s))"
  by (simp add: stop_def quiet_def Let_def split: option.splits)

lemma stop_waited_moves: "quiet s (snd (stop_waited s))"
  by (simp add: stop_waited_def quiet_def)

lemma stop_sent_moves: "quiet s (snd (stop_sent r s))"
  by (cases r) (simp_all add: stop_sent_def stop_waited_def quiet_def split: option.splits)

lemma write_moves: "quiet s (snd (write_data d s))"
  by (simp add: write_data_def quiet_def split: option.splits)

lemma step_moves:
  assumes "step api e s = Some s'"
  shows "quiet s s' \<or> releasing s s' \<or> starting s s'"
proof (cases e)
  case (Start env)
  with assms start_summary[of api env s] show ?thesis by (auto simp: step_def starting_def)
next
  case (Write d)
  with assms write_moves[of s d] show ?thesis by (auto simp: step_def)
next
  case Stop
  with assms stop_moves[of s] show ?thesis by (auto simp: step_def)
next
  case (Stop_sent r)
  with assms stop_sent_moves[of "s\<lparr>stop_sending := stop_sending s - 1\<rparr>" r]
  show ?thesis by (auto simp: step_def quiet_def split: if_splits)
next
  case Stop_waited
  with assms stop_waited_moves[of "s\<lparr>stop_waiting := stop_waiting s - 1\<rparr>"]
  show ?thesis by (auto simp: step_def quiet_def split: if_splits)
next
  case (Ws_open n)
  with assms show ?thesis by (auto simp: step_def on_open_def quiet_def split: if_splits)
next
  case (Ws_error n err)
  with assms show ?thesis by (auto simp: step_def on_error_def quiet_def split: if_splits)
next
  case (Ws_message n d)
  with assms handleMessage_moves[of s d] show ?thesis by (auto simp: step_def split: if_splits)
next
  case (Ws_close n)
  with assms on_close_moves[of s] show ?thesis by (auto simp: step_def split: if_splits)
qed

lemma run_signal_inv: "signal_inv s \<Longrightarrow> run api es s = Some s' \<Longrightarrow> signal_inv s'"
proof (induction es arbitrary: s)
  case Nil
  then show ?case by simp
next
  case (Cons e es)
  from Cons.prems(2) obtain s1 where s1: "step api e s = Some s1" and r: "run api es s1 = Some s'"
    by (auto split: option.splits)
  from Cons.prems(1) step_moves[OF s1] have "signal_inv s1" by (rule signal_inv_preserved)
  then show ?case using r by (rule Cons.IH)
qed

subsection \<open>Completion callbacks\<close>

lemma handlePayload_completions:
  "completions (trace (handlePayload p s)) = completions (trace s) @
     (case p of Event r \<Rightarrow> if code r = Integral 0 \<and> final r = 1 then [r] else [] | _ \<Rightarrow> [])"
proof (cases p)
  case (Malformed err)
  then show ?thesis by (simp add: handlePayload_def)
next
  case (Event r)
  then show ?thesis by (simp add: handlePayload_def Let_def dispatchEvent_trace)
qed

lemma step_completions:
  assumes "step api e s = Some s'"
  shows "length (completions (trace s')) = length (completions (trace s)) + (if terminal e then 1 else 0)"
proof (cases e)
  case (Start env)
  with assms start_summary(2)[of api env s] show ?thesis by (auto simp: step_def)
next
  case (Write d)
  with assms show ?thesis by (auto simp: step_def write_data_def split: option.splits)
next
  case Stop
  with assms show ?thesis by (auto simp: step_def stop_def Let_def split: option.splits)
next
  case (Stop_sent r)
  with assms show ?thesis
    by (cases r) (auto simp: step_def stop_sent_def stop_waited_def split: if_splits option.splits)
next
  case Stop_waited
  with assms show ?thesis by (auto simp: step_def stop_waited_def split: if_splits)
next
  case (Ws_open n)
  with assms show ?thesis by (auto simp: step_def on_open_def split: if_splits)
next
  case (Ws_error n err)
  with assms show ?thesis by (auto simp: step_def on_error_def split: if_splits)
next
  case (Ws_message n d)
  with assms show ?thesis
    by (cases d)
       (auto simp: step_def handleMessage_def handlePayload_completions
             split: if_splits payload.splits)
next
  case (Ws_close n)
  with assms show ?thesis by (auto simp: step_def on_close_def split: if_splits)
qed

lemma run_completions:
  "run api es s = Some s' \<Longrightarrow>
     length (completions (trace s')) = length (completions (trace s)) + length (filter terminal es)"
proof (induction es arbitrary: s)
  case Nil
  then show ?case by simp
next
  case (Cons e es)
  from Cons.prems obtain s1 where s1: "step api e s = Some s1" and r: "run api es s1 = Some s'"
    by (auto split: option.splits)
  show ?case using step_completions[OF s1] Cons.IH[OF r] by simp
qed

lemma signing_calls_simps [simp]:
  "signing_calls [] = []"
  "signing_calls (t @ u) = signing_calls t @ signing_calls u"
  "signing_calls (e # t) = signing e @ signing_calls t"
  by (simp_all add: signing_calls_def)

lemma tokens_append [simp]: "tokens (xs @ ys) = tokens xs @ tokens ys"
  by (induction xs rule: tokens.induct) simp_all


text \<open>One call of start, seen from the credential.\<close>

lemma open_socket_credential [simp]:
  "this_credential (snd (open_socket env n s)) = this_credential s"
  "signing_calls (trace (snd (open_socket env n s))) = signing_calls (trace s)"
  by (simp_all add: open_socket_def Let_def split: option.splits)

















lemma race_timer:
  "\<exists>t v. race p (setTimeout t0 ms x) = Settles t v \<and> t \<le> t0 + timer_delay ms"
  by (cases p) (auto simp: setTimeout_def)

lemma timer_delay_10000 [simp]: "timer_delay 10000 = 10000"
  by (simp add: timer_delay_def)

lemma timer_delay_bounds: "1 \<le> timer_delay ms \<and> timer_delay ms \<le> 2147483647"
  by (simp add: timer_delay_def)

lemma stop_keeps_writeTimeout: "this_writeTimeout (snd (stop s)) = this_writeTimeout s"
  by (simp add: stop_def Let_def emit_def split: option.splits)

lemma frames_simps [simp]:
  "frames [] = []"
  "frames (t @ u) = frames t @ frames u"
  "frames (e # t) = sent e @ frames t"
  by (simp_all add: frames_def)

subsection \<open>Sessions without socket\<close>


lemma on_close_ws [simp]: "this_ws (on_close s) = this_ws s"
  by (simp add: on_close_def)








subsection \<open>The example sessions\<close>

lemma starting_session_fields:
  "this_state starting_session = STARTING"
  "this_ws starting_session = Some 0"
  "this_doneResolve starting_session = Some 0"
  "this_donePromise starting_session = Some 0"
  "sockets starting_session = [0]"
  "attempts starting_session = 1"
  "stop_sending starting_session = 0"
  "stop_waiting starting_session = 0"
  "this_writeTimeout starting_session = 5000"
  "completions (trace starting_session) = []"
  "releases (trace starting_session) = []"
  "frames (trace starting_session) = []"
  by (simp_all add: starting_session_def start_def connect_def assign_voiceId_def
      derive_userSig_def open_socket_def example_session_def new_SpeechRecognizer_def
      example_api_def genUserSig_def example_env_def example_credential_def new_Credential_def
      Let_def emit_def)

lemma running_session_fields:
  "this_state running_session = RUNNING"
  "this_ws running_session = Some 0"
  "this_doneResolve running_session = Some 0"
  "this_donePromise running_session = Some 0"
  "sockets running_session = [0]"
  "attempts running_session = 1"
  "stop_sending running_session = 0"
  "stop_waiting running_session = 0"
  "this_writeTimeout running_session = 5000"
  "completions (trace running_session) = []"
  "releases (trace running_session) = []"
  "frames (trace running_session) = []"
  by (simp_all add: running_session_def on_open_def starting_session_fields emit_def)

lemma example_session_fields:
  "this_state example_session = IDLE"
  "this_ws example_session = None"
  "userSig (this_credential example_session) = []"
  "this_voiceId example_session = []"
  "attempts example_session = 0"
  "sockets example_session = []"
  "trace example_session = []"
  "this_doneResolve example_session = None"
  by (simp_all add: example_session_def new_SpeechRecognizer_def example_credential_def
      new_Credential_def)

lemma handleMessage_sockets [simp]: "sockets (handleMessage d s) = sockets s"
  by (cases d) (auto simp: handleMessage_def handlePayload_def Let_def split: payload.splits)

lemma on_close_sockets [simp]: "sockets (on_close s) = sockets s"
  by (simp add: on_close_def)

lemma example_run:
  "run example_api [Start example_env, Ws_open 0, Ws_message 0 d, Ws_close 0] example_session
     = Some (on_close (handleMessage d running_session))"
  by (simp add: step_def running_session_fields starting_session_fields
      running_session_def[symmetric] starting_session_def[symmetric])


section \<open>The claims about the session\<close>



subsection \<open>C1\<close>

text \<open>
  C1, as stated, fails: the number of completion callbacks of a session need not be one.  Two
  terminal events delivered to a running session reach \<^verbatim>\<open>onRecognitionComplete\<close> twice,
  and a session that ends by a fatal event and the closure of its socket never reaches it.
\<close>

theorem completion_count_not_one:
  "code terminal_event = Integral 0 \<and> final terminal_event = 1
   \<and> completions (trace (handleMessage (String_data (Event terminal_event))
                      (handleMessage (String_data (Event terminal_event)) running_session)))
       = [terminal_event, terminal_event]
   \<and> completions (trace (on_close (handleMessage (String_data (Event fatal_event))
                                      running_session))) = []"
  by (simp add: handleMessage_def handlePayload_def Let_def dispatchEvent_trace on_close_def
      running_session_fields terminal_event_def fatal_event_def example_event_def slice_of_def)

text \<open>
  C1, amended. In every run of a session from its construction, whatever its configuration,
  \<^verbatim>\<open>onRecognitionComplete\<close> fires once for each
  inbound zero-status event with \<^verbatim>\<open>final = 1\<close>, and no completion signal is released
  twice: the numbers of the released promises are distinct.  When a terminal event is
  followed by a transport closure, the terminal event fires the one completion callback and
  releases the signal if it is still held; the closure adds no completion callback and no
  release.  Releasing twice is the same as releasing once.
\<close>

theorem completion_per_terminal_event:
  "(trace s0 = [] \<and> this_doneResolve s0 = None \<and> run api es s0 = Some s \<longrightarrow>
      length (completions (trace s)) = length (filter terminal es)
      \<and> distinct (releases (trace s)))
   \<and> (code r = Integral 0 \<and> final r = 1 \<longrightarrow>
        completions (trace (on_close (handleMessage (String_data (Event r)) s')))
          = completions (trace s') @ [r]
      \<and> releases (trace (on_close (handleMessage (String_data (Event r)) s')))
          = releases (trace s') @ pending_release s'
      \<and> release (release s') = release s')"
proof -
  have "length (completions (trace s)) = length (filter terminal es) \<and> distinct (releases (trace s))"
    if "trace s0 = []" "this_doneResolve s0 = None" "run api es s0 = Some s"
  proof -
    have "signal_inv s0" using that(1,2) by (simp add: signal_inv_def)
    from run_signal_inv[OF this that(3)] run_completions[OF that(3)] that(1)
    show ?thesis by (simp add: signal_inv_def)
  qed
  moreover have "release (release s') = release s'"
    by (simp add: release_def split: option.splits)
  ultimately show ?thesis
    by (simp add: handleMessage_def handlePayload_def Let_def dispatchEvent_trace on_close_def
        pending_release_def signal_release_def split: option.splits)
qed

text \<open>C1, amended, on a run: start, open, one terminal event, closure.\<close>

theorem completion_per_terminal_event_witness:
  "run example_api [Start example_env, Ws_open 0, Ws_message 0 (String_data (Event terminal_event)),
        Ws_close 0] example_session
     = Some (on_close (handleMessage (String_data (Event terminal_event)) running_session))
   \<and> length (completions (trace (on_close (handleMessage (String_data (Event terminal_event))
                                               running_session)))) = 1
   \<and> distinct (releases (trace (on_close (handleMessage (String_data (Event terminal_event))
                                               running_session))))
   \<and> code terminal_event = Integral 0 \<and> final terminal_event = 1
   \<and> completions (trace (on_close (handleMessage (String_data (Event terminal_event))
                                      running_session))) = [terminal_event]
   \<and> releases (trace (on_close (handleMessage (String_data (Event terminal_event))
                                   running_session))) = [0]"
proof -
  let ?es = "[Start example_env, Ws_open 0, Ws_message 0 (String_data (Event terminal_event)),
        Ws_close 0]"
  let ?s = "on_close (handleMessage (String_data (Event terminal_event)) running_session)"
  have r: "run example_api ?es example_session = Some ?s" by (rule example_run)
  have t: "code terminal_event = Integral 0 \<and> final terminal_event = 1"
    by (simp add: terminal_event_def example_event_def)
  show ?thesis
    using r t
      completion_per_terminal_event[of example_session example_api ?es ?s terminal_event running_session]
    by (simp add: example_session_fields running_session_fields pending_release_def)
qed


subsection \<open>C2\<close>





subsection \<open>C6\<close>

text \<open>
  C6, as stated, fails: the error handed to \<^verbatim>\<open>onFail\<close> carries the status code of the
  event, not \<^verbatim>\<open>SERVER_ERROR\<close>; for status 1005 that number is \<^verbatim>\<open>AUTH_FAILED\<close>, and the
  message of the error is \<^verbatim>\<open>trtc-asr error [1005]: server refused\<close>.  And
  \<^verbatim>\<open>handleMessage\<close> has no guard of its own: a frame that the transport still delivers
  after the fatal event is classified and dispatched.
\<close>

theorem fatal_event_carries_server_code:
  "trace (handleMessage (String_data (Event fatal_event)) running_session)
     = trace running_session
         @ [onFail (Some fatal_event) (ASRError AUTH_FAILED ''trtc-asr error [1005]: server refused''),
            ws_close 0, doneResolve_call 0]
   \<and> AUTH_FAILED \<noteq> SERVER_ERROR
   \<and> message fatal_event = ''server refused''
   \<and> trace (handleMessage (String_data (Event (example_event 0 0 (Some (example_result (Some 0))))))
              (handleMessage (String_data (Event fatal_event)) running_session))
     = trace running_session
         @ [onFail (Some fatal_event) (ASRError AUTH_FAILED ''trtc-asr error [1005]: server refused''),
            ws_close 0, doneResolve_call 0,
            onSentenceBegin (example_event 0 0 (Some (example_result (Some 0))))]"
  by (simp add: handleMessage_def handlePayload_def Let_def dispatchEvent_trace
      running_session_fields fatal_event_def example_event_def example_result_def slice_of_def
      transport_close_def signal_release_def AUTH_FAILED_def SERVER_ERROR_def
      new_ASRError_def decimal_1005)

text \<open>
  C6, amended. For every well-formed inbound event with a non-zero status code,
  \<^verbatim>\<open>onFail\<close> is invoked with that event attached and an \<^verbatim>\<open>ASRError\<close> whose code is the
  status code of the event and whose message is the text
  \<^verbatim>\<open>trtc-asr error [<code>]: <message>\<close> built from the status code and the message of the
  event; then the transport is closed if the session has one and the handle is dropped, and
  the completion signal is released if it is still held.  Nothing else is dispatched for this
  event, and the state does not change.
\<close>

theorem fatal_event_fails_closes_releases:
  assumes "code r \<noteq> Integral 0"
  shows "trace (handleMessage (String_data (Event r)) s)
           = trace s @ [onFail (Some r) (new_ASRError (code r) (message r))]
               @ transport_close s @ signal_release s
       \<and> err_code (new_ASRError (code r) (message r)) = code r
       \<and> err_message (new_ASRError (code r) (message r))
           = ''trtc-asr error ['' @ String_number (code r) @ '']: '' @ message r
       \<and> this_ws (handleMessage (String_data (Event r)) s) = None
       \<and> this_doneResolve (handleMessage (String_data (Event r)) s) = None
       \<and> this_state (handleMessage (String_data (Event r)) s) = this_state s
       \<and> handleMessage (Buffer_data (Event r)) s = handleMessage (String_data (Event r)) s"
  using assms by (simp add: handleMessage_def handlePayload_def)

text \<open>C6, amended, on the running session and an event with status 1005.\<close>

theorem fatal_event_fails_closes_releases_witness:
  "code fatal_event \<noteq> Integral 0
   \<and> trace (handleMessage (String_data (Event fatal_event)) running_session)
       = trace running_session
           @ [onFail (Some fatal_event) (new_ASRError (Integral 1005) ''server refused''), ws_close 0,
              doneResolve_call 0]
   \<and> err_code (new_ASRError (Integral 1005) ''server refused'') = Integral 1005
   \<and> err_message (new_ASRError (Integral 1005) ''server refused'')
       = ''trtc-asr error [1005]: server refused''
   \<and> this_ws (handleMessage (String_data (Event fatal_event)) running_session) = None
   \<and> this_doneResolve (handleMessage (String_data (Event fatal_event)) running_session) = None
   \<and> this_state (handleMessage (String_data (Event fatal_event)) running_session) = RUNNING"
proof -
  have h: "code fatal_event \<noteq> Integral 0" by (simp add: fatal_event_def example_event_def)
  show ?thesis
    using h fatal_event_fails_closes_releases[OF h, of running_session]
    by (simp add: fatal_event_def example_event_def transport_close_def signal_release_def
        running_session_fields decimal_1005)
qed


subsection \<open>C7\<close>

text \<open>
  C7. For every well-formed zero-status inbound event: slice type 0 (sentence begin)
  dispatches \<^verbatim>\<open>onSentenceBegin\<close>, 1 (interim) \<^verbatim>\<open>onRecognitionResultChange\<close>, 2 (sentence end)
  \<^verbatim>\<open>onSentenceEnd\<close>; an absent slice type dispatches \<^verbatim>\<open>onRecognitionStart\<close> when
  \<^verbatim>\<open>final\<close> is not 1 and nothing when it is.  Whenever \<^verbatim>\<open>final = 1\<close>,
  \<^verbatim>\<open>onRecognitionComplete\<close> fires after that and the completion signal is released, after
  which the session holds no resolver.  A binary frame is handled as a text frame.
\<close>

theorem event_classification:
  assumes "code r = Integral 0"
  shows "(slice_of r = Some 0 \<longrightarrow>
            trace (handleMessage (String_data (Event r)) s)
              = trace s @ [onSentenceBegin r]
                  @ (if final r = 1 then onRecognitionComplete r # signal_release s else []))
       \<and> (slice_of r = Some 1 \<longrightarrow>
            trace (handleMessage (String_data (Event r)) s)
              = trace s @ [onRecognitionResultChange r]
                  @ (if final r = 1 then onRecognitionComplete r # signal_release s else []))
       \<and> (slice_of r = Some 2 \<longrightarrow>
            trace (handleMessage (String_data (Event r)) s)
              = trace s @ [onSentenceEnd r]
                  @ (if final r = 1 then onRecognitionComplete r # signal_release s else []))
       \<and> (slice_of r = None \<and> final r \<noteq> 1 \<longrightarrow>
            trace (handleMessage (String_data (Event r)) s) = trace s @ [onRecognitionStart r])
       \<and> (slice_of r = None \<and> final r = 1 \<longrightarrow>
            trace (handleMessage (String_data (Event r)) s)
              = trace s @ onRecognitionComplete r # signal_release s)
       \<and> (final r = 1 \<longrightarrow> this_doneResolve (handleMessage (String_data (Event r)) s) = None)
       \<and> handleMessage (Buffer_data (Event r)) s = handleMessage (String_data (Event r)) s"
  using assms by (simp add: handleMessage_def handlePayload_def Let_def dispatchEvent_trace)

text \<open>C7 on the running session: a final sentence end, a first event, a bare terminal
  event.\<close>

theorem event_classification_witness:
  "code (example_event 0 1 (Some (example_result (Some 2)))) = Integral 0
   \<and> trace (handleMessage (String_data (Event (example_event 0 1 (Some (example_result (Some 2))))))
              running_session)
       = trace running_session
           @ [onSentenceEnd (example_event 0 1 (Some (example_result (Some 2)))),
              onRecognitionComplete (example_event 0 1 (Some (example_result (Some 2)))),
              doneResolve_call 0]
   \<and> trace (handleMessage (String_data (Event (example_event 0 0 None))) running_session)
       = trace running_session @ [onRecognitionStart (example_event 0 0 None)]
   \<and> trace (handleMessage (String_data (Event terminal_event)) running_session)
       = trace running_session @ [onRecognitionComplete terminal_event, doneResolve_call 0]"
proof -
  let ?e = "example_event 0 1 (Some (example_result (Some 2)))"
  have h1: "code ?e = Integral 0" and h2: "code (example_event 0 0 None) = Integral 0" and h3: "code terminal_event = Integral 0"
    by (simp_all add: example_event_def terminal_event_def)
  show ?thesis
    using h1 event_classification[OF h1, of running_session] event_classification[OF h2, of running_session]
      event_classification[OF h3, of running_session]
    by (simp add: slice_of_def example_event_def example_result_def terminal_event_def
        signal_release_def running_session_fields)
qed


subsection \<open>C8\<close>

text \<open>
  C8, as stated, fails: the ten-second ceiling bounds the second wait only.  With the default
  write timeout of 5000 ms, an end signal acknowledged after 4999 ms and no completion,
  \<^verbatim>\<open>stop\<close> settles after 14999 ms; with a write timeout of one hour and a transport that
  never acknowledges, it settles after one hour.
\<close>

theorem stop_exceeds_ceiling:
  "this_state running_session = RUNNING
   \<and> settle_time (stop_timed running_session (Ack 4999) None) = Some 14999
   \<and> settle_time (stop_timed (setWriteTimeout 3600000 running_session) No_ack None) = Some 3600000"
  by (simp add: stop_timed_def stop_def stop_sent_def stop_waited_def setWriteTimeout_def
      setTimeout_def timer_delay_def running_session_fields Let_def emit_def)

text \<open>
  C8, amended. For every session in the Running state, whatever the transport does with the
  end signal and whether or not completion ever arrives, \<^verbatim>\<open>stop\<close> settles, at the latest
  after the write timeout (as the timer takes it) plus the ten-second ceiling, and leaves the
  session Stopped.
\<close>

theorem stop_settles_within_both_timeouts:
  assumes "this_state s = RUNNING"
  shows "\<exists>t out s'. stop_timed s a done_at = Settles t (out, s')
           \<and> t \<le> timer_delay (this_writeTimeout s) + 10000
           \<and> this_state s' = STOPPED"
proof (cases "fst (stop s) = Pending")
  case False
  then have "stop_timed s a done_at = Settles 0 (stop s)"
    by (cases "stop s"; cases "fst (stop s)") (simp_all add: stop_timed_def)
  moreover have "this_state (snd (stop s)) = STOPPED"
    using stop_settles_stopped[OF assms False] by simp
  moreover have "(0::int) \<le> timer_delay (this_writeTimeout s) + 10000"
    using timer_delay_bounds[of "this_writeTimeout s"] by simp
  ultimately show ?thesis by (metis prod.collapse)
next
  case True
  then obtain s1 where s1: "stop s = (Pending, s1)" by (cases "stop s") simp
  have wt: "this_writeTimeout s1 = this_writeTimeout s"
    using stop_keeps_writeTimeout[of s] s1 by simp
  obtain t1 r where send: "race (send_callback a) (setTimeout 0 (this_writeTimeout s1) Send_timeout) = Settles t1 r"
    and t1: "t1 \<le> timer_delay (this_writeTimeout s)"
    using race_timer[of "send_callback a" 0 "this_writeTimeout s1" Send_timeout] wt by auto
  show ?thesis
  proof (cases "fst (stop_sent r s1) = Pending")
    case False
    then have "stop_timed s a done_at = Settles t1 (stop_sent r s1)"
      using s1 send by (cases "stop_sent r s1"; cases "fst (stop_sent r s1)") (simp_all add: stop_timed_def)
    moreover have "this_state (snd (stop_sent r s1)) = STOPPED"
      using stop_sent_stopped[OF False] .
    ultimately show ?thesis using t1 by (metis add_increasing2 prod.collapse zero_le_numeral)
  next
    case True
    then obtain s2 where s2: "stop_sent r s1 = (Pending, s2)" by (cases "stop_sent r s1") simp
    obtain t2 u where wait: "race (completion_promise t1 done_at) (setTimeout t1 10000 ()) = Settles t2 u"
      and t2: "t2 \<le> t1 + timer_delay 10000"
      using race_timer[of "completion_promise t1 done_at" t1 10000 "()"] by auto
    have "stop_timed s a done_at = Settles t2 (stop_waited s2)"
      using s1 send s2 wait by (simp add: stop_timed_def)
    moreover have "this_state (snd (stop_waited s2)) = STOPPED"
      using stop_waited_stopped[of s2] by simp
    moreover have "t2 \<le> timer_delay (this_writeTimeout s) + 10000"
      using t1 t2 by simp
    ultimately show ?thesis by (metis prod.collapse)
  qed
qed

text \<open>C8, amended, on the running session: with the default write timeout the bound is
  15000 ms.\<close>

theorem stop_settles_within_both_timeouts_witness:
  "this_state running_session = RUNNING
   \<and> (\<exists>t out s'. stop_timed running_session (Ack 4999) None = Settles t (out, s')
         \<and> t \<le> timer_delay (this_writeTimeout running_session) + 10000
         \<and> this_state s' = STOPPED)
   \<and> timer_delay (this_writeTimeout running_session) + 10000 = 15000"
proof -
  have h: "this_state running_session = RUNNING" by (simp add: running_session_fields)
  show ?thesis
    using h stop_settles_within_both_timeouts[OF h, of "Ack 4999" None]
    by (simp add: running_session_fields timer_delay_def)
qed


subsection \<open>C9\<close>




subsection \<open>C10\<close>



end
